theory Spec2Isabelle
  imports Main
begin

section \<open>The Rome API facade of \<^verbatim>\<open>api-rome.cpp\<close>\<close>

text \<open>
  Every exported function of \<^verbatim>\<open>api-rome.cpp\<close> has the same shape: validate the
  arguments, take the process-wide lock, log the call, delegate to the engine, and turn
  every exception into a failure sentinel plus a thread-local error string.

  The embedding keeps that shape. The session singleton \<^verbatim>\<open>App\<close> is a record that is
  passed in and returned; the calling thread is an explicit argument; a C pointer that the
  code tests against \<^verbatim>\<open>NULL\<close> is an \<open>option\<close>. Logging, the MFC module state, the
  active-object bookkeeping (\<^verbatim>\<open>SetActiveObj\<close>) and the critical sections (\<^verbatim>\<open>ROME_API_LOCK\<close>, \<^verbatim>\<open>FILEOBJ_READLOCK\<close>,
  \<^verbatim>\<open>ATTR_READLOCK\<close>, \<^verbatim>\<open>ATTR_WRITELOCK\<close>) and the debug-only \<^verbatim>\<open>ASSERT\<close>s
  have no effect on the values computed and are left out. The second handler nested in
  each \<^verbatim>\<open>catch (...)\<close> block only guards the formatting of the message.
\<close>

subsection \<open>Compile-time configuration\<close>

text \<open>
  The preprocessor symbols that switch code on and off in the functions below. Their
  values are set outside this file, so they are parameters. \<open>MAX_SETSTR_SIZE\<close> is the
  bound on the length of a value string.
\<close>

record config =
  USE_ROMEAPI_THREADIdS :: bool
  USE_ROMEAPI_REFCOUNT :: bool
  USE_ROMEAPI_ZEROATTRSIZE :: bool
  MAX_SETSTR_SIZE :: int

subsection \<open>The session\<close>

type_synonym THREADId = nat

text \<open>A non-null \<^verbatim>\<open>RT_App*\<close> is the address of the singleton or some other address.\<close>

datatype app_ptr = App | ForeignApp nat

datatype dllstate = DLLSTATE_CLOSED | DLLSTATE_INITROME

text \<open>
  The facade reads and writes three members of \<^verbatim>\<open>CRomeCore\<close> directly: the state
  flags (through \<^verbatim>\<open>HasFlag\<close>), \<^verbatim>\<open>m_nThreadId\<close> and \<^verbatim>\<open>m_sCommandLine\<close>.
  \<open>thread_strings\<close> is the store behind \<^verbatim>\<open>RomeThreadGetNamedString\<close>; \<open>calls\<close>
  is the sequence of engine and attribute operations the facade has issued so far, oldest
  first; \<open>world\<close> is everything else (files, attributes, catalog), which only the
  collaborators of the facade look into. \<open>Engine\<close> is the member \<^verbatim>\<open>Core.Engine\<close>:
  its stack of pending updates and its auto-update (auto-run) state.
\<close>

datatype call =
    CallFinishUpdates
  | CallLockUpdate
  | CallUnlockUpdate
  | CallFindOrCreate string nat
  | CallDimGetSize nat int
  | CallGetSize nat
  | CallAttrGetIndex nat
  | CallAttrGetStr nat int
  | CallResizeDim "nat option" int bool
  | CallDoCmdSetStr nat string int

record engine_state =
  update_stack :: "nat list"
  auto_update :: bool

record 'w core =
  m_flags :: "dllstate set"
  m_nThreadId :: THREADId
  m_sCommandLine :: string
  Engine :: engine_state
  thread_strings :: "THREADId \<Rightarrow> string \<Rightarrow> string"
  calls :: "call list"
  world :: 'w

definition HasFlag :: "dllstate \<Rightarrow> 'w core \<Rightarrow> bool" where
  "HasFlag f s = (f \<in> m_flags s)"

text \<open>
  Modelled from the spec: \<^verbatim>\<open>RomeThreadGetNamedString\<close> and
  \<^verbatim>\<open>RomeThreadSetNamedString\<close> are declared outside this file. The spec calls the
  error buffer thread-local, so a named string is looked up per calling thread; a name never
  written reads as the empty string.
\<close>

definition RomeThreadGetNamedString :: "THREADId \<Rightarrow> string \<Rightarrow> 'w core \<Rightarrow> string" where
  "RomeThreadGetNamedString tid name s = thread_strings s tid name"

definition RomeThreadSetNamedString :: "THREADId \<Rightarrow> string \<Rightarrow> string \<Rightarrow> 'w core \<Rightarrow> 'w core" where
  "RomeThreadSetNamedString tid name v s =
     s\<lparr>thread_strings := (thread_strings s)(tid := (thread_strings s tid)(name := v))\<rparr>"

text \<open>\<^verbatim>\<open>strempty\<close>: true for a null pointer and for the empty string.\<close>

definition strempty :: "string option \<Rightarrow> bool" where
  "strempty p = (case p of None \<Rightarrow> True | Some t \<Rightarrow> t = [])"

subsection \<open>The error channel\<close>

text \<open>
  \<^verbatim>\<open>RomeSetLastError\<close> (lines 1102-1196). A non-null \<open>pApp\<close> is validated; a null one is
  accepted. The first character of the text selects append, prepend or replace; the
  prepending variant of the last branch is compiled out (\<^verbatim>\<open>#if 0\<close>), so text without a
  prefix replaces the buffer. With the thread check compiled in, the call is refused when
  the calling thread \<^emph>\<open>is\<close> the one stored by \<^verbatim>\<open>RomeInit\<close>: the code tests
  \<^verbatim>\<open>!bSameThread\<close>.
\<close>

definition RomeSetLastError ::
  "config \<Rightarrow> THREADId \<Rightarrow> app_ptr option \<Rightarrow> string option \<Rightarrow> 'w core \<Rightarrow> bool \<times> 'w core" where
  "RomeSetLastError cfg tid pApp pszInfo s =
     (if pApp \<noteq> None \<and> pApp \<noteq> Some App then (False, s)
      else if pApp \<noteq> None \<and> HasFlag DLLSTATE_CLOSED s then (False, s)
      else if pApp \<noteq> None \<and> USE_ROMEAPI_THREADIdS cfg \<and> m_nThreadId s = tid then (False, s)
      else
        let sInfo = RomeThreadGetNamedString tid ''RomeGetLastError'' s;
            sInfo' =
              (case pszInfo of
                 None \<Rightarrow> []
               | Some [] \<Rightarrow> []
               | Some (c # rest) \<Rightarrow>
                   if c = CHR ''+'' then
                     (if \<not> strempty (Some sInfo) then (sInfo @ ''\<newline>'') @ rest else rest)
                   else if c = CHR ''-'' then
                     (if \<not> strempty (Some sInfo) then rest @ (''\<newline>'' @ sInfo) else rest)
                   else if c = CHR ''='' then rest
                   else c # rest)
        in (True, RomeThreadSetNamedString tid ''RomeGetLastError'' sInfo' s))"

text \<open>
  \<^verbatim>\<open>RomeGetLastError\<close> (lines 1048-1081). With the thread check compiled in, line 1063
  \<^emph>\<open>assigns\<close> the calling thread to \<^verbatim>\<open>App.m_nThreadId\<close> and tests the assigned
  value, and \<^verbatim>\<open>ASSERT_OR_RETURN_VALUE\<close> then returns its second argument, the message
  text, unless the thread id is zero.
\<close>

definition RomeGetLastError ::
  "config \<Rightarrow> THREADId \<Rightarrow> app_ptr option \<Rightarrow> 'w core \<Rightarrow> string option \<times> 'w core" where
  "RomeGetLastError cfg tid pApp s =
     (if \<not> (pApp = None \<or> pApp = Some App) then (None, s)
      else if HasFlag DLLSTATE_CLOSED s then (None, s)
      else if USE_ROMEAPI_THREADIdS cfg then
        (let s' = s\<lparr>m_nThreadId := tid\<rparr> in
         if tid \<noteq> 0 then
           (Some ''RomeGetLastError: Rome API function called on different thread from RomeInit().'', s')
         else (Some (RomeThreadGetNamedString tid ''RomeGetLastError'' s'), s'))
      else (Some (RomeThreadGetNamedString tid ''RomeGetLastError'' s), s))"

text \<open>
  The condition under which \<^verbatim>\<open>RomeSetLastError\<close> reaches its editing code: the three
  early returns of lines 1111-1122 are not taken.
\<close>

definition SetLastError_accepts :: "config \<Rightarrow> THREADId \<Rightarrow> app_ptr option \<Rightarrow> 'w core \<Rightarrow> bool" where
  "SetLastError_accepts cfg tid pApp s =
     (pApp = None \<or>
      (pApp = Some App \<and> \<not> HasFlag DLLSTATE_CLOSED s \<and>
       (USE_ROMEAPI_THREADIdS cfg \<longrightarrow> m_nThreadId s \<noteq> tid)))"

text \<open>A sample session for closed instances: initialised, open, created by thread 1.\<close>

definition sample_cfg :: config where
  "sample_cfg = \<lparr>USE_ROMEAPI_THREADIdS = False, USE_ROMEAPI_REFCOUNT = False,
                 USE_ROMEAPI_ZEROATTRSIZE = False, MAX_SETSTR_SIZE = 1024\<rparr>"

definition sample_core :: "unit core" where
  "sample_core = \<lparr>m_flags = {DLLSTATE_INITROME}, m_nThreadId = 1, m_sCommandLine = [],
                  Engine = \<lparr>update_stack = [], auto_update = False\<rparr>,
                  thread_strings = (\<lambda>_ _. []), calls = [], world = ()\<rparr>"

subsection \<open>Results, exceptions and the call log\<close>

definition RX_TRUE :: int where "RX_TRUE = 1"
definition RX_FALSE :: int where "RX_FALSE = 0"
definition RX_FAILURE :: int where "RX_FAILURE = - 1"

text \<open>
  \<^verbatim>\<open>RT_INT\<close> is a 32-bit and \<^verbatim>\<open>RT_SHORT\<close> a 16-bit signed integer. Values are
  kept as \<open>int\<close>; \<open>int32\<close> and \<open>int16\<close> give the value an arithmetic result or a cast
  has in the narrower type.
\<close>

definition int32 :: "int \<Rightarrow> int" where
  "int32 n = (n + 2147483648) mod 4294967296 - 2147483648"

definition int16 :: "int \<Rightarrow> int" where
  "int16 n = (n + 32768) mod 65536 - 32768"

text \<open>
  A collaborator either returns a value or throws; either way it leaves a state behind.
  \<open>and_then\<close> sequences two steps inside a \<^verbatim>\<open>try\<close> block, \<open>try_catch\<close> is the
  \<^verbatim>\<open>catch (...)\<close> handler around it.
\<close>

datatype ('a, 's) outcome = Returns 'a 's | Throws 's

definition and_then ::
  "('a, 's) outcome \<Rightarrow> ('a \<Rightarrow> 's \<Rightarrow> ('b, 's) outcome) \<Rightarrow> ('b, 's) outcome" where
  "and_then m k = (case m of Returns a s \<Rightarrow> k a s | Throws s \<Rightarrow> Throws s)"

definition try_catch :: "('a, 's) outcome \<Rightarrow> ('s \<Rightarrow> 'a \<times> 's) \<Rightarrow> 'a \<times> 's" where
  "try_catch body handler = (case body of Returns a s \<Rightarrow> (a, s) | Throws s \<Rightarrow> handler s)"

text \<open>
  \<open>invoke c f\<close> runs the collaborator \<open>f\<close> and appends \<open>c\<close> to the call log of the
  state it was started in, so that the log is the facade's own record whatever the
  collaborator does. \<open>note_call\<close> records a read that does not change the state.
\<close>

definition note_call :: "call \<Rightarrow> 'w core \<Rightarrow> 'w core" where
  "note_call c s = s\<lparr>calls := calls s @ [c]\<rparr>"

definition invoke ::
  "call \<Rightarrow> ('w core \<Rightarrow> ('a, 'w core) outcome) \<Rightarrow> 'w core \<Rightarrow> ('a, 'w core) outcome" where
  "invoke c f s =
     (case f s of
        Returns a s' \<Rightarrow> Returns a (s'\<lparr>calls := calls s @ [c]\<rparr>)
      | Throws s' \<Rightarrow> Throws (s'\<lparr>calls := calls s @ [c]\<rparr>))"

text \<open>
  Modelled from the spec: the macros \<^verbatim>\<open>ASSERT_OR_SETERROR_AND_RETURN_*\<close> are defined
  in \<^verbatim>\<open>api-rome-priv.h\<close>, which is not part of the sources. By section 7 of the spec a
  failed check sets the thread-local error string and returns the sentinel the macro is
  named after (\<^verbatim>\<open>FAILURE\<close> is -1; \<^verbatim>\<open>NULL\<close>, \<^verbatim>\<open>FALSE\<close> and \<^verbatim>\<open>ZERO\<close> are 0).
  The text is stored through \<^verbatim>\<open>RomeSetLastError\<close> with a null session pointer, the
  one form of that call that is never refused.
\<close>

definition SETERROR :: "config \<Rightarrow> THREADId \<Rightarrow> string \<Rightarrow> 'w core \<Rightarrow> 'w core" where
  "SETERROR cfg tid msg s = snd (RomeSetLastError cfg tid None (Some msg) s)"

definition cstr :: "string option \<Rightarrow> string" where
  "cstr p = (case p of None \<Rightarrow> [] | Some t \<Rightarrow> t)"

subsection \<open>Collaborators\<close>

text \<open>
  The classes the facade delegates to (\<^verbatim>\<open>CFileObj\<close>, \<^verbatim>\<open>CAttr\<close>,
  \<^verbatim>\<open>CListing\<close>, the catalog, the resize and set-value commands) are declared in
  headers outside the sources. Each member the facade uses is a parameter: a field of the
  record \<open>env\<close>. Objects are named by their address, a \<open>nat\<close>. Queries read the state;
  operations that may change it or throw return an \<open>outcome\<close>. The catalog and the
  object type of a file do not change while a session runs (section 3 of the spec), so
  \<open>GetListing\<close>, \<open>IsValidObject\<close> and \<open>GetObjTypeName\<close> take no state. \<open>FormatPtr\<close> and
  \<open>FormatInt\<close> stand for the \<^verbatim>\<open>%08X\<close> and \<^verbatim>\<open>%d\<close> conversions of
  \<^verbatim>\<open>CString::Format\<close>.
\<close>

record 'w env =
  run_stack :: "'w core \<Rightarrow> (unit, 'w core) outcome"
  LockUpdate :: "'w core \<Rightarrow> 'w core"
  UnlockUpdate :: "'w core \<Rightarrow> 'w core"
  file_Core :: "nat \<Rightarrow> 'w core \<Rightarrow> app_ptr"
  IsValid :: "nat \<Rightarrow> 'w core \<Rightarrow> bool"
  m_nRomeRefs :: "nat \<Rightarrow> 'w core \<Rightarrow> int"
  IsEmpty :: "nat \<Rightarrow> 'w core \<Rightarrow> bool"
  GetObjTypeName :: "nat \<Rightarrow> string"
  GetListing :: "string \<Rightarrow> nat option"
  IsValidObject :: "nat \<Rightarrow> string \<Rightarrow> bool"
  FindOrCreate :: "string \<Rightarrow> nat \<Rightarrow> 'w core \<Rightarrow> (nat option, 'w core) outcome"
  GetSize :: "nat \<Rightarrow> 'w core \<Rightarrow> int"
  dimensions_GetSize :: "nat \<Rightarrow> int \<Rightarrow> 'w core \<Rightarrow> int"
  dimensions_GetDimPtr :: "nat \<Rightarrow> int \<Rightarrow> 'w core \<Rightarrow> nat option"
  IsDimension :: "nat \<Rightarrow> 'w core \<Rightarrow> bool"
  CanUserResize :: "nat \<Rightarrow> 'w core \<Rightarrow> bool"
  IsValidUnits :: "nat \<Rightarrow> string \<Rightarrow> 'w core \<Rightarrow> bool"
  AttrGetIndex :: "nat \<Rightarrow> int \<Rightarrow> 'w core \<Rightarrow> int"
  Int2Str :: "int \<Rightarrow> string"
  AttrGetStr :: "nat \<Rightarrow> int \<Rightarrow> nat \<Rightarrow> string \<Rightarrow> 'w core \<Rightarrow> (string option, 'w core) outcome"
  UserCmdResizeDim :: "nat option \<Rightarrow> string \<Rightarrow> int \<Rightarrow> bool \<Rightarrow> 'w core \<Rightarrow> (int, 'w core) outcome"
  DoCmdSetStr :: "nat \<Rightarrow> string \<Rightarrow> int \<Rightarrow> nat \<Rightarrow> string \<Rightarrow> 'w core \<Rightarrow> (int, 'w core) outcome"
  FormatPtr :: "nat option \<Rightarrow> string"
  FormatInt :: "int \<Rightarrow> string"

subsection \<open>The engine\<close>

text \<open>
  Modelled from the spec: \<^verbatim>\<open>CEngineBase::FinishUpdates\<close> is not in this file. The
  comment on \<^verbatim>\<open>RomeEngineFinishUpdates\<close> (lines 2418-2420) and section 4.2 of the spec
  give its contract: it runs the update stack until it is empty and leaves the auto-update
  state unchanged; when the engine fails, the calling operation fails. What running the
  stack does to files and attributes is the parameter \<open>run_stack\<close>.
\<close>

definition FinishUpdates :: "'w env \<Rightarrow> 'w core \<Rightarrow> (unit, 'w core) outcome" where
  "FinishUpdates E s =
     (case run_stack E s of
        Returns _ s' \<Rightarrow>
          Returns () (s'\<lparr>Engine := \<lparr>update_stack = [], auto_update = auto_update (Engine s)\<rparr>\<rparr>)
      | Throws s' \<Rightarrow>
          Throws (s'\<lparr>Engine := (Engine s')\<lparr>auto_update := auto_update (Engine s)\<rparr>\<rparr>))"

text \<open>
  \<^verbatim>\<open>CUpdateLock lock;\<close> locks the engine for the enclosing scope: the constructor
  locks, the destructor unlocks, also when the scope is left by an exception.
\<close>

definition with_CUpdateLock ::
  "'w env \<Rightarrow> ('w core \<Rightarrow> ('a, 'w core) outcome) \<Rightarrow> 'w core \<Rightarrow> ('a, 'w core) outcome" where
  "with_CUpdateLock E f s =
     (case f (note_call CallLockUpdate (LockUpdate E s)) of
        Returns a s' \<Rightarrow> Returns a (note_call CallUnlockUpdate (UnlockUpdate E s'))
      | Throws s' \<Rightarrow> Throws (note_call CallUnlockUpdate (UnlockUpdate E s')))"

subsection \<open>Attribute sizes\<close>

text \<open>
  The message of the \<^verbatim>\<open>catch (...)\<close> handler of the file functions:
  \<^verbatim>\<open>"<name>: exception for File = '0x%08X', Attr = '%s'."\<close>.
\<close>

definition exception_text :: "'w env \<Rightarrow> string \<Rightarrow> nat option \<Rightarrow> string option \<Rightarrow> string" where
  "exception_text E fname pFile pszAttr =
     fname @ '': exception for File = '' @ [CHR 0x27] @ ''0x'' @ FormatPtr E pFile @ [CHR 0x27] @
     '', Attr = '' @ [CHR 0x27] @ cstr pszAttr @ [CHR 0x27]"

text \<open>\<^verbatim>\<open>RomeFileGetAttrDimSize\<close>, lines 2977-3044. The two checks of lines 2989 and 2991
  return \<^verbatim>\<open>NULL\<close>, that is 0, where the others return -1.\<close>

definition RomeFileGetAttrDimSize ::
  "config \<Rightarrow> 'w env \<Rightarrow> THREADId \<Rightarrow> nat option \<Rightarrow> string option \<Rightarrow> int \<Rightarrow> 'w core \<Rightarrow> int \<times> 'w core" where
  "RomeFileGetAttrDimSize cfg E tid pFile pszAttr nDim s =
     (case pFile of
        None \<Rightarrow> (RX_FAILURE, SETERROR cfg tid ''RomeFileGetAttrDimSize: NULL file pointer.'' s)
      | Some f \<Rightarrow>
          if strempty pszAttr then
            (RX_FAILURE, SETERROR cfg tid ''RomeFileGetAttrDimSize: empty attr name.'' s)
          else if file_Core E f s \<noteq> App then
            (0, SETERROR cfg tid ''RomeFileGetAttrDimSize: invalid file pointer.'' s)
          else if HasFlag DLLSTATE_CLOSED s then
            (0, SETERROR cfg tid ''RomeFileGetAttrDimSize: RomeExit() has already been called.'' s)
          else if \<not> IsValid E f s then
            (RX_FAILURE, SETERROR cfg tid ''RomeFileGetAttrDimSize: invalid file pointer.'' s)
          else if USE_ROMEAPI_REFCOUNT cfg \<and> \<not> m_nRomeRefs E f s \<ge> 1 then
            (RX_FAILURE, SETERROR cfg tid ''RomeFileGetAttrDimSize: invalid file reference count.'' s)
          else if USE_ROMEAPI_THREADIdS cfg \<and> m_nThreadId s = tid then
            (RX_FAILURE, SETERROR cfg tid
               ''RomeFileGetAttrDimSize: Rome API function called on different thread from RomeInit().'' s)
          else
            try_catch
              (and_then (invoke CallFinishUpdates (FinishUpdates E) s) (\<lambda>_ s1.
               and_then (invoke (CallFindOrCreate (cstr pszAttr) f) (FindOrCreate E (cstr pszAttr) f) s1)
                 (\<lambda>pAttr s2.
                  case pAttr of
                    None \<Rightarrow>
                      Returns RX_FAILURE
                        (SETERROR cfg tid ''+RomeFileGetAttrDimSize: failed to create attr.'' s2)
                  | Some a \<Rightarrow>
                      and_then (invoke CallFinishUpdates (FinishUpdates E) s2) (\<lambda>_ s3.
                        Returns (dimensions_GetSize E a nDim s3)
                          (note_call (CallDimGetSize a nDim) s3)))))
              (\<lambda>s'. (RX_FAILURE,
                 SETERROR cfg tid (exception_text E ''RomeFileGetAttrDimSize'' pFile pszAttr @ ''.'') s')))"

text \<open>\<^verbatim>\<open>RomeFileGetAttrSize\<close>, lines 3063-3142. The size is cast to \<^verbatim>\<open>RT_SHORT\<close> and
  compared with the uncast value.\<close>

definition RomeFileGetAttrSize ::
  "config \<Rightarrow> 'w env \<Rightarrow> THREADId \<Rightarrow> nat option \<Rightarrow> string option \<Rightarrow> 'w core \<Rightarrow> int \<times> 'w core" where
  "RomeFileGetAttrSize cfg E tid pFile pszAttr s =
     (case pFile of
        None \<Rightarrow> (RX_FAILURE, SETERROR cfg tid ''RomeFileGetAttrSize: NULL file pointer.'' s)
      | Some f \<Rightarrow>
          if strempty pszAttr then
            (RX_FAILURE, SETERROR cfg tid ''RomeFileGetAttrSize: empty attr name.'' s)
          else if file_Core E f s \<noteq> App then
            (0, SETERROR cfg tid ''RomeFileGetAttrSize: invalid file pointer.'' s)
          else if HasFlag DLLSTATE_CLOSED s then
            (0, SETERROR cfg tid ''RomeFileGetAttrSize: RomeExit() has already been called.'' s)
          else if \<not> IsValid E f s then
            (RX_FAILURE, SETERROR cfg tid ''RomeFileGetAttrSize: invalid file pointer.'' s)
          else if USE_ROMEAPI_REFCOUNT cfg \<and> \<not> m_nRomeRefs E f s \<ge> 1 then
            (RX_FAILURE, SETERROR cfg tid ''RomeFileGetAttrSize: invalid file reference count.'' s)
          else if USE_ROMEAPI_THREADIdS cfg \<and> m_nThreadId s = tid then
            (RX_FAILURE, SETERROR cfg tid
               ''RomeFileGetAttrSize: Rome API function called on different thread from RomeInit().'' s)
          else
            try_catch
              (and_then (invoke CallFinishUpdates (FinishUpdates E) s) (\<lambda>_ s1.
               and_then (invoke (CallFindOrCreate (cstr pszAttr) f) (FindOrCreate E (cstr pszAttr) f) s1)
                 (\<lambda>pAttr s2.
                  if USE_ROMEAPI_ZEROATTRSIZE cfg \<and> pAttr = None \<and> IsEmpty E f s2
                     \<and> GetListing E (cstr pszAttr) \<noteq> None then Returns 0 s2
                  else
                  case pAttr of
                    None \<Rightarrow>
                      Returns RX_FAILURE
                        (SETERROR cfg tid ''+RomeFileGetAttrSize: failed to create attr.'' s2)
                  | Some a \<Rightarrow>
                      and_then (invoke CallFinishUpdates (FinishUpdates E) s2) (\<lambda>_ s3.
                        let nSize = GetSize E a s3;
                            s4 = note_call (CallGetSize a) s3;
                            xSize = int16 nSize
                        in if \<not> nSize = xSize then
                             Returns RX_FAILURE
                               (SETERROR cfg tid
                                  ''RomeFileGetAttrSize: size is too large to cast to short.'' s4)
                           else Returns (int16 nSize) s4))))
              (\<lambda>s'. (RX_FAILURE,
                 SETERROR cfg tid (exception_text E ''RomeFileGetAttrSize'' pFile pszAttr @ ''.'') s')))"

text \<open>\<^verbatim>\<open>RomeFileGetAttrSizeEx\<close>, lines 3156-3240.\<close>

definition RomeFileGetAttrSizeEx ::
  "config \<Rightarrow> 'w env \<Rightarrow> THREADId \<Rightarrow> nat option \<Rightarrow> string option \<Rightarrow> 'w core \<Rightarrow> int \<times> 'w core" where
  "RomeFileGetAttrSizeEx cfg E tid pFile pszAttr s =
     (case pFile of
        None \<Rightarrow> (RX_FAILURE, SETERROR cfg tid ''RomeFileGetAttrSizeEx: NULL file pointer.'' s)
      | Some f \<Rightarrow>
          if strempty pszAttr then
            (RX_FAILURE, SETERROR cfg tid ''RomeFileGetAttrSizeEx: empty attr name.'' s)
          else if file_Core E f s \<noteq> App then
            (RX_FAILURE, SETERROR cfg tid ''RomeFileGetAttrSizeEx: invalid file pointer.'' s)
          else if HasFlag DLLSTATE_CLOSED s then
            (RX_FAILURE, SETERROR cfg tid ''RomeFileGetAttrSizeEx: RomeExit() has already been called.'' s)
          else if \<not> IsValid E f s then
            (RX_FAILURE, SETERROR cfg tid ''RomeFileGetAttrSizeEx: invalid file pointer.'' s)
          else if USE_ROMEAPI_REFCOUNT cfg \<and> \<not> m_nRomeRefs E f s \<ge> 1 then
            (RX_FAILURE, SETERROR cfg tid ''RomeFileGetAttrSizeEx: invalid file reference count.'' s)
          else if USE_ROMEAPI_THREADIdS cfg \<and> m_nThreadId s = tid then
            (RX_FAILURE, SETERROR cfg tid
               ''RomeFileGetAttrSizeEx: Rome API function called on different thread from RomeInit().'' s)
          else
            try_catch
              (and_then (invoke CallFinishUpdates (FinishUpdates E) s) (\<lambda>_ s1.
               and_then (invoke (CallFindOrCreate (cstr pszAttr) f) (FindOrCreate E (cstr pszAttr) f) s1)
                 (\<lambda>pAttr s2.
                  if USE_ROMEAPI_ZEROATTRSIZE cfg \<and> pAttr = None \<and> IsEmpty E f s2
                     \<and> GetListing E (cstr pszAttr) \<noteq> None then Returns 0 s2
                  else
                  case pAttr of
                    None \<Rightarrow>
                      Returns RX_FAILURE
                        (SETERROR cfg tid ''RomeFileGetAttrSizeEx: failed to create attr.'' s2)
                  | Some a \<Rightarrow>
                      and_then (invoke CallFinishUpdates (FinishUpdates E) s2) (\<lambda>_ s3.
                        Returns (GetSize E a s3) (note_call (CallGetSize a) s3)))))
              (\<lambda>s'. (RX_FAILURE,
                 SETERROR cfg tid (exception_text E ''RomeFileGetAttrSizeEx'' pFile pszAttr @ ''.'') s')))"

subsection \<open>Attribute values\<close>

text \<open>
  \<^verbatim>\<open>RomeFileGetAttrValueAux\<close>, lines 3266-3381. Every failed check returns
  \<^verbatim>\<open>NULL\<close>. Index -1 returns the current index of the attribute, formatted into the
  thread-local string \<^verbatim>\<open>"RomeFileGetAttrValue"\<close>. For any other index the value comes
  from \<^verbatim>\<open>AttrGetStr\<close>; the facade does not compare the index with the size, and it
  replaces a null result by the four characters \<^verbatim>\<open>NULL\<close> (lines 3349-3350). The unit
  is a string: the code reads it without a null test.
\<close>

definition RomeFileGetAttrValueAux ::
  "config \<Rightarrow> 'w env \<Rightarrow> THREADId \<Rightarrow> nat option \<Rightarrow> string option \<Rightarrow> int \<Rightarrow> nat \<Rightarrow> string
     \<Rightarrow> 'w core \<Rightarrow> string option \<times> 'w core" where
  "RomeFileGetAttrValueAux cfg E tid pFile pszAttr nIndex nVariant pszUnit s =
     (case pFile of
        None \<Rightarrow> (None, SETERROR cfg tid ''RomeFileGetAttrValue: NULL file pointer.'' s)
      | Some f \<Rightarrow>
          if strempty pszAttr then
            (None, SETERROR cfg tid ''RomeFileGetAttrValue: empty attr name.'' s)
          else if \<not> (nIndex \<ge> 0 \<or> nIndex = - 1) then
            (None, SETERROR cfg tid ''RomeFileGetAttrValue: invalid index.'' s)
          else if file_Core E f s \<noteq> App then
            (None, SETERROR cfg tid ''RomeFileGetAttrValue: invalid file pointer.'' s)
          else if HasFlag DLLSTATE_CLOSED s then
            (None, SETERROR cfg tid ''RomeFileGetAttrValue: RomeExit() has already been called.'' s)
          else if \<not> IsValid E f s then
            (None, SETERROR cfg tid ''RomeFileGetAttrValue: invalid file pointer.'' s)
          else if USE_ROMEAPI_REFCOUNT cfg \<and> \<not> m_nRomeRefs E f s \<ge> 1 then
            (None, SETERROR cfg tid ''RomeFileGetAttrValue: invalid file reference count.'' s)
          else if USE_ROMEAPI_THREADIdS cfg \<and> m_nThreadId s = tid then
            (None, SETERROR cfg tid
               ''RomeFileGetAttrValue: Rome API function called on different thread from RomeInit().'' s)
          else
            try_catch
              (and_then (invoke CallFinishUpdates (FinishUpdates E) s) (\<lambda>_ s1.
               and_then (invoke (CallFindOrCreate (cstr pszAttr) f) (FindOrCreate E (cstr pszAttr) f) s1)
                 (\<lambda>pAttr s2.
                  case pAttr of
                    None \<Rightarrow>
                      (case GetListing E (cstr pszAttr) of
                         None \<Rightarrow>
                           Returns None
                             (SETERROR cfg tid ''RomeFileGetAttrValue: no Rusle2 parameter of that name.'' s2)
                       | Some pAttrListing \<Rightarrow>
                           if \<not> IsValidObject E pAttrListing (GetObjTypeName E f) then
                             Returns None
                               (SETERROR cfg tid
                                  ''RomeFileGetAttrValue: Rusle2 parameter asked for in wrong object type.'' s2)
                           else
                             Returns None
                               (SETERROR cfg tid ''RomeFileGetAttrValue: failed to create attr.'' s2))
                  | Some a \<Rightarrow>
                      if nIndex = - 1 then
                        let nCurrent = AttrGetIndex E a 0 s2;
                            sCurrent = Int2Str E nCurrent
                        in Returns (Some sCurrent)
                             (RomeThreadSetNamedString tid ''RomeFileGetAttrValue'' sCurrent
                                (note_call (CallAttrGetIndex a) s2))
                      else
                        and_then (invoke CallFinishUpdates (FinishUpdates E) s2) (\<lambda>_ s3.
                          if \<not> IsValidUnits E a pszUnit s3 then Returns None s3
                          else
                            let pszUnit' = (if length pszUnit = 0 then ''#U_TEMPLATE'' else pszUnit)
                            in and_then
                                 (invoke (CallAttrGetStr a nIndex)
                                    (AttrGetStr E a nIndex nVariant pszUnit') s3)
                                 (\<lambda>pszValue s4.
                                    case pszValue of
                                      None \<Rightarrow> Returns (Some ''NULL'') s4
                                    | Some v \<Rightarrow> Returns (Some v) s4)))))
              (\<lambda>s'. (None,
                 SETERROR cfg tid
                   (exception_text E ''RomeFileGetAttrValue'' pFile pszAttr @ '', Index = '' @
                    FormatInt E nIndex @ ''.'') s')))"

text \<open>\<^verbatim>\<open>strieq\<close>: equality of strings up to the case of ASCII letters.\<close>

definition toupper :: "char \<Rightarrow> char" where
  "toupper c =
     (let n = (of_char c :: nat) in if 97 \<le> n \<and> n \<le> 122 then char_of (n - 32) else c)"

definition strieq :: "string \<Rightarrow> string \<Rightarrow> bool" where
  "strieq a b = (map toupper a = map toupper b)"

text \<open>
  \<^verbatim>\<open>RomeFileSetAttrValueAux\<close>, lines 4173-4298. Every failed check returns -1, except
  the unit check of line 4255, which returns 0 and sets no error text. The attribute is
  created under a \<^verbatim>\<open>CUpdateLock\<close>. The flags argument of \<^verbatim>\<open>DoCmdSetStr\<close> is a
  constant and is not passed on.
\<close>

definition RomeFileSetAttrValueAux ::
  "config \<Rightarrow> 'w env \<Rightarrow> THREADId \<Rightarrow> nat option \<Rightarrow> string option \<Rightarrow> string option \<Rightarrow> int \<Rightarrow> nat
     \<Rightarrow> string \<Rightarrow> 'w core \<Rightarrow> int \<times> 'w core" where
  "RomeFileSetAttrValueAux cfg E tid pFile pszAttr pszValue nIndex nVariant pszUnit s =
     (case pFile of
        None \<Rightarrow> (RX_FAILURE, SETERROR cfg tid ''RomeFileSetAttrValue: NULL file pointer.'' s)
      | Some f \<Rightarrow>
          if strempty pszAttr then
            (RX_FAILURE, SETERROR cfg tid ''RomeFileSetAttrValue: empty attr name.'' s)
          else if pszValue = None then
            (RX_FAILURE, SETERROR cfg tid ''RomeFileSetAttrValue: NULL value pointer.'' s)
          else if \<not> nIndex \<ge> 0 then
            (RX_FAILURE, SETERROR cfg tid ''RomeFileSetAttrValue: negative index.'' s)
          else if \<not> (MAX_SETSTR_SIZE cfg \<le> 0 \<or> int (length (cstr pszValue)) \<le> MAX_SETSTR_SIZE cfg) then
            (RX_FAILURE, SETERROR cfg tid ''RomeFileSetAttrValue: value string exceeds MAX_SETSTR_SIZE.'' s)
          else if file_Core E f s \<noteq> App then
            (RX_FAILURE, SETERROR cfg tid ''RomeFileSetAttrValue: invalid file pointer.'' s)
          else if HasFlag DLLSTATE_CLOSED s then
            (RX_FAILURE, SETERROR cfg tid ''RomeFileSetAttrValue: RomeExit() has already been called.'' s)
          else if \<not> IsValid E f s then
            (RX_FAILURE, SETERROR cfg tid ''RomeFileSetAttrValue: invalid file pointer.'' s)
          else if USE_ROMEAPI_REFCOUNT cfg \<and> \<not> m_nRomeRefs E f s \<ge> 1 then
            (RX_FAILURE, SETERROR cfg tid ''RomeFileSetAttrValue: invalid file reference count.'' s)
          else if USE_ROMEAPI_THREADIdS cfg \<and> m_nThreadId s = tid then
            (RX_FAILURE, SETERROR cfg tid
               ''RomeFileSetAttrValue: Rome API function called on different thread from RomeInit().'' s)
          else
            try_catch
              (and_then (invoke CallFinishUpdates (FinishUpdates E) s) (\<lambda>_ s1.
               and_then
                 (with_CUpdateLock E
                    (invoke (CallFindOrCreate (cstr pszAttr) f) (FindOrCreate E (cstr pszAttr) f)) s1)
                 (\<lambda>pAttr s2.
                  case pAttr of
                    None \<Rightarrow>
                      (case GetListing E (cstr pszAttr) of
                         None \<Rightarrow>
                           Returns RX_FAILURE
                             (SETERROR cfg tid ''RomeFileSetAttrValue: no Rusle2 parameter of that name.'' s2)
                       | Some pAttrListing \<Rightarrow>
                           if \<not> IsValidObject E pAttrListing (GetObjTypeName E f) then
                             Returns RX_FAILURE
                               (SETERROR cfg tid
                                  ''RomeFileSetAttrValue: Rusle2 parameter asked for in wrong object type.'' s2)
                           else
                             Returns RX_FAILURE
                               (SETERROR cfg tid ''RomeFileSetAttrValue: failed to create attr.'' s2))
                  | Some a \<Rightarrow>
                      and_then (invoke CallFinishUpdates (FinishUpdates E) s2) (\<lambda>_ s3.
                        if \<not> IsValidUnits E a pszUnit s3 then Returns RX_FALSE s3
                        else
                          let pszUnit' = (if length pszUnit = 0 then ''#U_TEMPLATE'' else pszUnit)
                          in if strieq (cstr pszValue) ''#INSERT'' then
                               (let pDim = dimensions_GetDimPtr E a 0 s3
                                in and_then
                                     (invoke (CallResizeDim pDim nIndex False)
                                        (UserCmdResizeDim E pDim [] nIndex False) s3)
                                     (\<lambda>r s4. Returns (int16 r) s4))
                             else if strieq (cstr pszValue) ''#DELETE'' then
                               (let pDim = dimensions_GetDimPtr E a 0 s3
                                in and_then
                                     (invoke (CallResizeDim pDim nIndex True)
                                        (UserCmdResizeDim E pDim [] nIndex True) s3)
                                     (\<lambda>r s4. Returns (int16 r) s4))
                             else
                               and_then
                                 (invoke (CallDoCmdSetStr a (cstr pszValue) nIndex)
                                    (DoCmdSetStr E a (cstr pszValue) nIndex nVariant pszUnit') s3)
                                 (\<lambda>r s4. Returns (int16 r) s4)))))
              (\<lambda>s'. (RX_FAILURE,
                 SETERROR cfg tid
                   (exception_text E ''RomeFileSetAttrValue'' pFile pszAttr @ '', Value = '' @
                    [CHR 0x27] @ cstr pszValue @ [CHR 0x27] @ '', Index = '' @ FormatInt E nIndex @ ''.'')
                   s')))"

subsection \<open>Resizing a dimension\<close>

text \<open>
  The loop of lines 4083-4087: \<open>i\<close> single-row operations through
  \<^verbatim>\<open>UserCmdResizeDim\<close>, the index stepping down when deleting and up when inserting.
  The result of each operation is discarded; an exception leaves the loop.
\<close>

fun resize_loop ::
  "'w env \<Rightarrow> nat \<Rightarrow> bool \<Rightarrow> nat \<Rightarrow> int \<Rightarrow> 'w core \<Rightarrow> (unit, 'w core) outcome" where
  "resize_loop E a bDelete 0 nIndex s = Returns () s"
| "resize_loop E a bDelete (Suc i) nIndex s =
     and_then
       (invoke (CallResizeDim (Some a) nIndex bDelete) (UserCmdResizeDim E (Some a) [] nIndex bDelete) s)
       (\<lambda>_ s'. resize_loop E a bDelete i (if bDelete then int32 (nIndex - 1) else int32 (nIndex + 1)) s')"

text \<open>
  \<^verbatim>\<open>RomeFileSetAttrSize\<close>, lines 4017-4110. The branch compiled in is the
  \<^verbatim>\<open>#if 1\<close> one. After the loop the function logs and returns; it makes no further
  engine call.
\<close>

definition RomeFileSetAttrSize ::
  "config \<Rightarrow> 'w env \<Rightarrow> THREADId \<Rightarrow> nat option \<Rightarrow> string option \<Rightarrow> int \<Rightarrow> 'w core \<Rightarrow> int \<times> 'w core" where
  "RomeFileSetAttrSize cfg E tid pFile pszAttr nNewSize s =
     (case pFile of
        None \<Rightarrow> (RX_FAILURE, SETERROR cfg tid ''RomeFileSetAttrSize: NULL file pointer.'' s)
      | Some f \<Rightarrow>
          if strempty pszAttr then
            (RX_FAILURE, SETERROR cfg tid ''RomeFileSetAttrSize: empty attr name.'' s)
          else if \<not> nNewSize \<ge> 0 then
            (RX_FAILURE, SETERROR cfg tid ''RomeFileSetAttrSize: negative size.'' s)
          else if \<not> nNewSize \<noteq> 0 then
            (RX_FAILURE, SETERROR cfg tid ''RomeFileSetAttrSize: zero size.'' s)
          else if file_Core E f s \<noteq> App then
            (RX_FAILURE, SETERROR cfg tid ''RomeFileSetAttrSize: invalid file pointer.'' s)
          else if HasFlag DLLSTATE_CLOSED s then
            (RX_FAILURE, SETERROR cfg tid ''RomeFileSetAttrSize: RomeExit() has already been called.'' s)
          else if \<not> IsValid E f s then
            (RX_FAILURE, SETERROR cfg tid ''RomeFileSetAttrSize: invalid file pointer.'' s)
          else if USE_ROMEAPI_REFCOUNT cfg \<and> \<not> m_nRomeRefs E f s \<ge> 1 then
            (RX_FAILURE, SETERROR cfg tid ''RomeFileSetAttrSize: invalid file reference count.'' s)
          else if USE_ROMEAPI_THREADIdS cfg \<and> m_nThreadId s = tid then
            (RX_FAILURE, SETERROR cfg tid
               ''RomeFileSetAttrSize: Rome API function called on different thread from RomeInit().'' s)
          else
            try_catch
              (and_then (invoke CallFinishUpdates (FinishUpdates E) s) (\<lambda>_ s1.
               and_then (invoke (CallFindOrCreate (cstr pszAttr) f) (FindOrCreate E (cstr pszAttr) f) s1)
                 (\<lambda>pAttr s2.
                  case pAttr of
                    None \<Rightarrow>
                      Returns RX_FAILURE
                        (SETERROR cfg tid ''RomeFileSetAttrSize: failed to create attr.'' s2)
                  | Some a \<Rightarrow>
                      if \<not> IsDimension E a s2 then
                        Returns RX_FAILURE
                          (SETERROR cfg tid ''RomeFileSetAttrSize: cannot resize a non-dimension attr.'' s2)
                      else if \<not> CanUserResize E a s2 then
                        Returns RX_FAILURE
                          (SETERROR cfg tid ''RomeFileSetAttrSize: the attr cannot be resized.'' s2)
                      else
                        and_then (invoke CallFinishUpdates (FinishUpdates E) s2) (\<lambda>_ s3.
                          let nOldSize = GetSize E a s3;
                              s4 = note_call (CallGetSize a) s3;
                              nDeltaSize = int32 (nNewSize - nOldSize);
                              bDelete = (nDeltaSize < 0);
                              nNumRows = int32 \<bar>nDeltaSize\<bar>;
                              nIndex = (if bDelete then int32 (nOldSize - 1) else nOldSize)
                          in and_then (resize_loop E a bDelete (nat nNumRows) nIndex s4) (\<lambda>_ s5.
                               Returns (if nOldSize \<noteq> nNewSize then 1 else 0) s5)))))
              (\<lambda>s'. (RX_FAILURE,
                 SETERROR cfg tid
                   (exception_text E ''RomeFileSetAttrSize'' pFile pszAttr @ '', Size = '' @
                    FormatInt E nNewSize @ ''.'') s')))"

subsection \<open>Session lifecycle\<close>

text \<open>
  \<^verbatim>\<open>CRomeCore::ParseArgs\<close>, \<^verbatim>\<open>CRomeCore::Init\<close> and \<^verbatim>\<open>CRomeCore::Exit\<close> are
  declared outside the sources and are parameters. \<open>ParseArgs\<close> yields the argument
  vector, or nothing when parsing fails.
\<close>

record 'w session_env =
  ParseArgs :: "string option \<Rightarrow> string list option"
  Init :: "string list \<Rightarrow> 'w core \<Rightarrow> (app_ptr option, 'w core) outcome"
  Exit :: "'w core \<Rightarrow> (bool, 'w core) outcome"

text \<open>
  \<^verbatim>\<open>RomeInit\<close>, lines 1269-1351. The closed test comes first, the test for an
  initialised session second; only then are the arguments stored and parsed, the thread
  id recorded (when the thread check is compiled in) and \<^verbatim>\<open>Init\<close> called.
\<close>

definition RomeInit ::
  "config \<Rightarrow> 'w session_env \<Rightarrow> THREADId \<Rightarrow> string option \<Rightarrow> 'w core \<Rightarrow> app_ptr option \<times> 'w core" where
  "RomeInit cfg SE tid pszArgs s =
     (if HasFlag DLLSTATE_CLOSED s then
        (None, SETERROR cfg tid ''RomeInit: RomeExit() has already been called.'' s)
      else if HasFlag DLLSTATE_INITROME s then (Some App, s)
      else
        try_catch
          (let s1 = s\<lparr>m_sCommandLine := cstr pszArgs\<rparr> in
           case ParseArgs SE pszArgs of
             None \<Rightarrow>
               Returns None
                 (SETERROR cfg tid ''-RomeInit: failed to parse command line arguments.'' s1)
           | Some argv \<Rightarrow>
               let s2 = (if USE_ROMEAPI_THREADIdS cfg then s1\<lparr>m_nThreadId := tid\<rparr> else s1)
               in Init SE argv s2)
          (\<lambda>s'. (None,
             SETERROR cfg tid
               (''RomeInit: exception for Args = '' @ [CHR 0x27] @ cstr pszArgs @ [CHR 0x27] @ ''.'')
               s')))"

text \<open>\<^verbatim>\<open>RomeExit\<close>, lines 1211-1243.\<close>

definition RomeExit ::
  "config \<Rightarrow> 'w session_env \<Rightarrow> THREADId \<Rightarrow> app_ptr option \<Rightarrow> 'w core \<Rightarrow> bool \<times> 'w core" where
  "RomeExit cfg SE tid pApp s =
     (case pApp of
        None \<Rightarrow> (False, SETERROR cfg tid ''RomeExit: NULL Rome app pointer.'' s)
      | Some p \<Rightarrow>
          if p \<noteq> App then (False, SETERROR cfg tid ''RomeExit: invalid Rome app pointer.'' s)
          else if HasFlag DLLSTATE_CLOSED s then
            (False, SETERROR cfg tid ''RomeExit: RomeExit() has already been called.'' s)
          else
            try_catch (Exit SE s)
              (\<lambda>s'. (False, SETERROR cfg tid ''RomeExit: exception.'' s')))"

text \<open>A sequence of \<^verbatim>\<open>RomeInit\<close> calls, each with its calling thread and arguments.\<close>

fun RomeInit_calls ::
  "config \<Rightarrow> 'w session_env \<Rightarrow> (THREADId \<times> string option) list \<Rightarrow> 'w core
     \<Rightarrow> app_ptr option list \<times> 'w core" where
  "RomeInit_calls cfg SE [] s = ([], s)"
| "RomeInit_calls cfg SE ((tid, pszArgs) # cs) s =
     (let (r, s1) = RomeInit cfg SE tid pszArgs s;
          (rs, s2) = RomeInit_calls cfg SE cs s1
      in (r # rs, s2))"

subsection \<open>The dependency walk\<close>

text \<open>
  \<^verbatim>\<open>RomeFilesGetDependencies\<close>, lines 4615-4765. The members of the file system, of
  files, attributes, listings and sub-objects that the walk reads are parameters, and so
  are \<^verbatim>\<open>RomeFilesOpen\<close> and \<^verbatim>\<open>RomeFileClose\<close>, which the walk uses only to obtain
  and release a file (both catch their own exceptions; the result of the close is
  discarded). \<^verbatim>\<open>ArrayFind\<close> returns an index or -1.
\<close>

datatype ParamType = ATTR_PTR | ATTR_SUB | ATTR_OTHER

record 'w deps_env =
  files_Core :: "nat \<Rightarrow> 'w core \<Rightarrow> app_ptr"
  FileSys_IsValid :: "nat \<Rightarrow> 'w core \<Rightarrow> bool"
  RomeFilesOpen :: "nat \<Rightarrow> string \<Rightarrow> 'w core \<Rightarrow> nat option \<times> 'w core"
  RomeFileClose :: "nat \<Rightarrow> 'w core \<Rightarrow> 'w core"
  m_params :: "nat \<Rightarrow> 'w core \<Rightarrow> nat list"
  attr_GetListing :: "nat \<Rightarrow> 'w core \<Rightarrow> nat option"
  listing_GetType :: "nat \<Rightarrow> 'w core \<Rightarrow> ParamType"
  attr_GetSize :: "nat \<Rightarrow> 'w core \<Rightarrow> int"
  attr_GetStr :: "nat \<Rightarrow> int \<Rightarrow> 'w core \<Rightarrow> string"
  FileExists :: "string \<Rightarrow> 'w core \<Rightarrow> bool"
  attr_GetPtr :: "nat \<Rightarrow> int \<Rightarrow> 'w core \<Rightarrow> nat option"
  IsFile :: "nat \<Rightarrow> 'w core \<Rightarrow> bool"
  subobj_GetFileName :: "nat \<Rightarrow> 'w core \<Rightarrow> string"
  ArrayFind :: "string list \<Rightarrow> string \<Rightarrow> int"

text \<open>
  The body of the innermost loop (lines 4684-4707) for one index \<open>i\<close> of a pointer or
  sub-object attribute: a pointer that names no file of the database is skipped; a file
  not yet in \<open>csaDeps\<close> is put on the stack and appended to \<open>csaDeps\<close>.
\<close>

definition visit_ptr ::
  "'w deps_env \<Rightarrow> 'w core \<Rightarrow> nat \<Rightarrow> ParamType \<Rightarrow> string list \<times> string list \<Rightarrow> int
     \<Rightarrow> string list \<times> string list" where
  "visit_ptr D s pAttr attrType acc i =
     (case acc of (stack, csaDeps) \<Rightarrow>
        if attrType = ATTR_PTR \<and> \<not> FileExists D (attr_GetStr D pAttr i s) s then (stack, csaDeps)
        else
          case attr_GetPtr D pAttr i s of
            None \<Rightarrow> (stack, csaDeps)
          | Some pCheckSubObj \<Rightarrow>
              if IsFile D pCheckSubObj s then
                (let fileName = subobj_GetFileName D pCheckSubObj s
                 in if ArrayFind D csaDeps fileName = - 1
                    then (fileName # stack, csaDeps @ [fileName])
                    else (stack, csaDeps))
              else (stack, csaDeps))"

text \<open>One attribute of the open file (lines 4673-4710), and all of them (lines 4668-4711).\<close>

definition visit_attr ::
  "'w deps_env \<Rightarrow> 'w core \<Rightarrow> string list \<times> string list \<Rightarrow> nat \<Rightarrow> string list \<times> string list" where
  "visit_attr D s acc pAttr =
     (case attr_GetListing D pAttr s of
        None \<Rightarrow> acc
      | Some pListing \<Rightarrow>
          let attrType = listing_GetType D pListing s
          in if attrType = ATTR_PTR \<or> attrType = ATTR_SUB then
               foldl (visit_ptr D s pAttr attrType) acc (map int [0..<nat (attr_GetSize D pAttr s)])
             else acc)"

definition visit_file ::
  "'w deps_env \<Rightarrow> 'w core \<Rightarrow> nat \<Rightarrow> string list \<times> string list \<Rightarrow> string list \<times> string list" where
  "visit_file D s pFile acc = foldl (visit_attr D s) acc (m_params D pFile s)"

text \<open>
  The \<^verbatim>\<open>while\<close> loop of lines 4662-4714. Nothing bounds the number of files it opens,
  so it takes fuel: one unit per iteration, and \<open>None\<close> when the fuel runs out before
  the stack is empty. When \<^verbatim>\<open>RomeFilesOpen\<close> returns \<^verbatim>\<open>NULL\<close> the next line reads
  through the null pointer; the walk ends there, as an exception.
\<close>

fun deps_walk ::
  "nat \<Rightarrow> 'w deps_env \<Rightarrow> nat \<Rightarrow> string list \<Rightarrow> string list \<Rightarrow> 'w core
     \<Rightarrow> (string list, 'w core) outcome option" where
  "deps_walk 0 D pFiles stack csaDeps s = (if stack = [] then Some (Returns csaDeps s) else None)"
| "deps_walk (Suc n) D pFiles stack csaDeps s =
     (case stack of
        [] \<Rightarrow> Some (Returns csaDeps s)
      | name # rest \<Rightarrow>
          (case RomeFilesOpen D pFiles name s of
             (None, s1) \<Rightarrow> Some (Throws s1)
           | (Some pFile, s1) \<Rightarrow>
               (case visit_file D s1 pFile (rest, csaDeps) of
                  (stack', csaDeps') \<Rightarrow>
                    deps_walk n D pFiles stack' csaDeps' (RomeFileClose D pFile s1))))"

text \<open>
  The function. \<open>depsArray\<close> and \<open>depsSize\<close> are the values the two reference
  parameters hold on entry; the result carries the values they hold on return. The thread
  check of lines 4631-4635 names a variable that is declared only at line 4651, so the
  function compiles only with the check left out, and it is left out here.
  \<open>depsSize\<close> is assigned before the array is allocated; an array of negative length
  cannot be allocated, the \<^verbatim>\<open>new\<close> expression throws and the handler returns false.
  The copy loop writes a terminating zero one position past each string it allocates;
  strings are values here, and that write is not represented.
\<close>

definition GetDependencies_handler ::
  "config \<Rightarrow> THREADId \<Rightarrow> string option \<Rightarrow> string list \<Rightarrow> int \<Rightarrow> 'w core
     \<Rightarrow> (bool \<times> string list \<times> int) \<times> 'w core" where
  "GetDependencies_handler cfg tid pszFilename depsArray depsSize s' =
     ((False, depsArray, depsSize),
      SETERROR cfg tid
        (''RomeFilesGetDependecies: exception for File = '' @ [CHR 0x27] @ cstr pszFilename @
         [CHR 0x27] @ ''.'') s')"

definition RomeFilesGetDependencies ::
  "config \<Rightarrow> 'w env \<Rightarrow> 'w deps_env \<Rightarrow> nat \<Rightarrow> THREADId \<Rightarrow> nat option \<Rightarrow> string option
     \<Rightarrow> string list \<Rightarrow> int \<Rightarrow> 'w core \<Rightarrow> ((bool \<times> string list \<times> int) \<times> 'w core) option" where
  "RomeFilesGetDependencies cfg E D fuel tid pFiles pszFilename depsArray depsSize s =
     (case pFiles of
        None \<Rightarrow>
          Some ((False, depsArray, depsSize),
                SETERROR cfg tid ''RomeFilesGetDependecies: NULL file system pointer.'' s)
      | Some fs \<Rightarrow>
          if pszFilename = None then
            Some ((False, depsArray, depsSize),
                  SETERROR cfg tid ''RomeFilesGetDependecies: NULL filename pointer.'' s)
          else if files_Core D fs s \<noteq> App then
            Some ((False, depsArray, depsSize),
                  SETERROR cfg tid ''RomeFilesGetDependecies: invalid file system pointer.'' s)
          else if HasFlag DLLSTATE_CLOSED s then
            Some ((False, depsArray, depsSize),
                  SETERROR cfg tid ''RomeFilesGetDependecies: RomeExit() has already been called.'' s)
          else if \<not> FileSys_IsValid D fs s then
            Some ((False, depsArray, depsSize),
                  SETERROR cfg tid ''RomeFilesGetDependecies: invalid file system pointer.'' s)
          else
            case invoke CallFinishUpdates (FinishUpdates E) s of
              Throws s' \<Rightarrow> Some (GetDependencies_handler cfg tid pszFilename depsArray depsSize s')
            | Returns _ s1 \<Rightarrow>
                (case deps_walk fuel D fs [cstr pszFilename] [] s1 of
                   None \<Rightarrow> None
                 | Some (Throws s') \<Rightarrow>
                     Some (GetDependencies_handler cfg tid pszFilename depsArray depsSize s')
                 | Some (Returns csaDeps s2) \<Rightarrow>
                     let depsSize' = int (length csaDeps) - 1
                     in if depsSize' < 0 then
                          Some (GetDependencies_handler cfg tid pszFilename depsArray depsSize' s2)
                        else
                          Some ((True, map (\<lambda>i. csaDeps ! i) [0..<nat depsSize'], depsSize'), s2)))"

subsection \<open>Notions used in the statements\<close>

text \<open>
  The checks that every attribute function makes on its file and attribute name before it
  takes the lock (for example lines 4029-4044): the name is not empty, the file belongs to
  the session, the session is not closed, the file is valid, its reference count is
  positive (when compiled in), and the thread check (when compiled in) lets the caller
  pass, which it does when the caller is \<^emph>\<open>not\<close> the thread stored by \<^verbatim>\<open>RomeInit\<close>.
\<close>

definition file_call_valid ::
  "config \<Rightarrow> 'w env \<Rightarrow> THREADId \<Rightarrow> nat \<Rightarrow> string option \<Rightarrow> 'w core \<Rightarrow> bool" where
  "file_call_valid cfg E tid f pszAttr s =
     (\<not> strempty pszAttr \<and> file_Core E f s = App \<and> \<not> HasFlag DLLSTATE_CLOSED s \<and> IsValid E f s
      \<and> (USE_ROMEAPI_REFCOUNT cfg \<longrightarrow> m_nRomeRefs E f s \<ge> 1)
      \<and> (USE_ROMEAPI_THREADIdS cfg \<longrightarrow> m_nThreadId s \<noteq> tid))"

text \<open>
  The first two steps after validation: drain the engine, then find or create the
  attribute. \<open>drain\<close> is the engine drain as the facade issues it.
\<close>

definition drain :: "'w env \<Rightarrow> 'w core \<Rightarrow> (unit, 'w core) outcome" where
  "drain E s = invoke CallFinishUpdates (FinishUpdates E) s"

definition resolve :: "'w env \<Rightarrow> nat \<Rightarrow> string \<Rightarrow> 'w core \<Rightarrow> (nat option, 'w core) outcome" where
  "resolve E f name s =
     and_then (drain E s) (\<lambda>_. invoke (CallFindOrCreate name f) (FindOrCreate E name f))"

definition resolve_locked :: "'w env \<Rightarrow> nat \<Rightarrow> string \<Rightarrow> 'w core \<Rightarrow> (nat option, 'w core) outcome" where
  "resolve_locked E f name s =
     and_then (drain E s)
       (\<lambda>_. with_CUpdateLock E (invoke (CallFindOrCreate name f) (FindOrCreate E name f)))"

text \<open>
  Lines 4076-4087 as one step: from the old and the requested size to the row operations
  of the loop, started in the state in which the old size was read.
\<close>

definition resize_rows :: "'w env \<Rightarrow> nat \<Rightarrow> int \<Rightarrow> int \<Rightarrow> 'w core \<Rightarrow> (unit, 'w core) outcome" where
  "resize_rows E a nOldSize nNewSize s =
     (let nDeltaSize = int32 (nNewSize - nOldSize);
          bDelete = (nDeltaSize < 0);
          nNumRows = int32 \<bar>nDeltaSize\<bar>;
          nIndex = (if bDelete then int32 (nOldSize - 1) else nOldSize)
      in resize_loop E a bDelete (nat nNumRows) nIndex s)"

text \<open>
  The resize command \<^verbatim>\<open>UserCmdResizeDim\<close> run on the dimension \<open>a\<close> at each index of
  a list in turn, every run starting in the state the previous one left; an exception ends
  the sequence.
\<close>

fun row_operations ::
  "'w env \<Rightarrow> nat \<Rightarrow> bool \<Rightarrow> int list \<Rightarrow> 'w core \<Rightarrow> (unit, 'w core) outcome" where
  "row_operations E a bDelete [] s = Returns () s"
| "row_operations E a bDelete (i # idxs) s =
     (case invoke (CallResizeDim (Some a) i bDelete) (UserCmdResizeDim E (Some a) [] i bDelete) s of
        Returns _ s' \<Rightarrow> row_operations E a bDelete idxs s'
      | Throws s' \<Rightarrow> Throws s')"

text \<open>
  Modelled from the spec: \<^verbatim>\<open>AttrGetStr\<close>, the accessor behind
  \<^verbatim>\<open>RomeFileGetAttrValueAux\<close>, is not in the sources, and the facade does not compare
  an index \<open>\<ge> 0\<close> with the size. Section 3 of the spec gives an attribute a flat value
  store indexed from 0 to size - 1, and sections 4.3 and 7 make an index outside it an
  internal fault that the entry point turns into a failure. So the accessor throws when
  the index is outside the store.
\<close>

definition AttrGetStr_faults_out_of_range :: "'w env \<Rightarrow> bool" where
  "AttrGetStr_faults_out_of_range E =
     (\<forall>a i v u s. \<not> (0 \<le> i \<and> i < GetSize E a s) \<longrightarrow> (\<exists>s'. AttrGetStr E a i v u s = Throws s'))"

text \<open>The error text of the calling thread.\<close>

definition last_error :: "THREADId \<Rightarrow> 'w core \<Rightarrow> string" where
  "last_error tid s = RomeThreadGetNamedString tid ''RomeGetLastError'' s"

subsection \<open>A sample world\<close>

text \<open>
  One file (address 1, object type \<open>SOIL\<close>) with one resizable dimension attribute
  \<open>LAYERS\<close> (address 10) whose size is the world; \<open>RAIN\<close> is in the catalog for
  another object type; no other name is in the catalog. Creating the attribute and
  resizing it each put an update on the stack. The value accessor faults on an index
  outside the value store.
\<close>

definition push_update :: "nat \<Rightarrow> int core \<Rightarrow> int core" where
  "push_update u s = s\<lparr>Engine := (Engine s)\<lparr>update_stack := u # update_stack (Engine s)\<rparr>\<rparr>"

definition sample_env :: "int env" where
  "sample_env =
     \<lparr>run_stack = (\<lambda>s. Returns () s),
      LockUpdate = (\<lambda>s. s),
      UnlockUpdate = (\<lambda>s. s),
      file_Core = (\<lambda>f s. if f = 1 then App else ForeignApp f),
      IsValid = (\<lambda>f s. f = 1),
      m_nRomeRefs = (\<lambda>f s. 1),
      IsEmpty = (\<lambda>f s. False),
      GetObjTypeName = (\<lambda>f. ''SOIL''),
      GetListing = (\<lambda>n. if n = ''LAYERS'' then Some 0 else if n = ''RAIN'' then Some 1 else None),
      IsValidObject = (\<lambda>l obj. l = 0 \<and> obj = ''SOIL''),
      FindOrCreate = (\<lambda>n f s. if n = ''LAYERS'' \<and> f = 1 then Returns (Some 10) (push_update 1 s)
                               else Returns None s),
      GetSize = (\<lambda>a s. world s),
      dimensions_GetSize = (\<lambda>a d s. if d = 0 then world s else 1),
      dimensions_GetDimPtr = (\<lambda>a d s. if d = 0 then Some a else None),
      IsDimension = (\<lambda>a s. True),
      CanUserResize = (\<lambda>a s. True),
      IsValidUnits = (\<lambda>a u s. True),
      AttrGetIndex = (\<lambda>a d s. 0),
      Int2Str = (\<lambda>n. if n = 0 then ''0'' else ''n''),
      AttrGetStr = (\<lambda>a i v u s. if 0 \<le> i \<and> i < world s then Returns (Some ''5'') s
                                 else Throws s),
      UserCmdResizeDim = (\<lambda>d n i del s.
         Returns 1 (push_update 2 (s\<lparr>world := world s + (if del then - 1 else 1)\<rparr>))),
      DoCmdSetStr = (\<lambda>a v i var u s. Returns 1 s),
      FormatPtr = (\<lambda>p. ''00000001''),
      FormatInt = (\<lambda>n. ''n'')\<rparr>"

definition sample_state :: "int \<Rightarrow> int core" where
  "sample_state n = \<lparr>m_flags = {DLLSTATE_INITROME}, m_nThreadId = 1, m_sCommandLine = [],
                     Engine = \<lparr>update_stack = [], auto_update = True\<rparr>,
                     thread_strings = (\<lambda>_ _. []), calls = [], world = n\<rparr>"

text \<open>The sample state after the first drain and the creation of \<open>LAYERS\<close>, and after
  the second drain.\<close>

definition sample_s2 :: "int \<Rightarrow> int core" where
  "sample_s2 n = \<lparr>m_flags = {DLLSTATE_INITROME}, m_nThreadId = 1, m_sCommandLine = [],
                  Engine = \<lparr>update_stack = [1], auto_update = True\<rparr>,
                  thread_strings = (\<lambda>_ _. []),
                  calls = [CallFinishUpdates, CallFindOrCreate ''LAYERS'' 1], world = n\<rparr>"

definition sample_s3 :: "int \<Rightarrow> int core" where
  "sample_s3 n = \<lparr>m_flags = {DLLSTATE_INITROME}, m_nThreadId = 1, m_sCommandLine = [],
                  Engine = \<lparr>update_stack = [], auto_update = True\<rparr>,
                  thread_strings = (\<lambda>_ _. []),
                  calls = [CallFinishUpdates, CallFindOrCreate ''LAYERS'' 1, CallFinishUpdates],
                  world = n\<rparr>"

text \<open>The sample state after \<open>LAYERS\<close> has grown from size 1 to size 3, and after it has
  shrunk from size 3 to size 1.\<close>

definition sample_grown :: "int core" where
  "sample_grown = \<lparr>m_flags = {DLLSTATE_INITROME}, m_nThreadId = 1, m_sCommandLine = [],
                   Engine = \<lparr>update_stack = [2, 2], auto_update = True\<rparr>,
                   thread_strings = (\<lambda>_ _. []),
                   calls = [CallFinishUpdates, CallFindOrCreate ''LAYERS'' 1, CallFinishUpdates,
                            CallGetSize 10, CallResizeDim (Some 10) 1 False,
                            CallResizeDim (Some 10) 2 False],
                   world = 3\<rparr>"

definition sample_shrunk :: "int core" where
  "sample_shrunk = \<lparr>m_flags = {DLLSTATE_INITROME}, m_nThreadId = 1, m_sCommandLine = [],
                    Engine = \<lparr>update_stack = [2, 2], auto_update = True\<rparr>,
                    thread_strings = (\<lambda>_ _. []),
                    calls = [CallFinishUpdates, CallFindOrCreate ''LAYERS'' 1, CallFinishUpdates,
                             CallGetSize 10, CallResizeDim (Some 10) 2 True,
                             CallResizeDim (Some 10) 1 True],
                    world = 1\<rparr>"

text \<open>The state an outcome leaves behind.\<close>

definition state_of :: "('a, 's) outcome \<Rightarrow> 's" where
  "state_of m = (case m of Returns _ s \<Rightarrow> s | Throws s \<Rightarrow> s)"

text \<open>
  A sample session: \<open>Init\<close> marks the session initialised and hands out the
  singleton, \<open>Exit\<close> marks it closed. \<open>threads_cfg\<close> compiles the thread check in.
  \<open>fresh_state\<close> is the session before \<^verbatim>\<open>RomeInit\<close>, \<open>sample_after_init\<close> the
  session after thread 1 has called \<^verbatim>\<open>RomeInit\<close> under \<open>threads_cfg\<close>.
\<close>

definition sample_session :: "int session_env" where
  "sample_session =
     \<lparr>ParseArgs = (\<lambda>a. Some []),
      Init = (\<lambda>argv s. Returns (Some App) (s\<lparr>m_flags := insert DLLSTATE_INITROME (m_flags s)\<rparr>)),
      Exit = (\<lambda>s. Returns True (s\<lparr>m_flags := insert DLLSTATE_CLOSED (m_flags s)\<rparr>))\<rparr>"

definition threads_cfg :: config where
  "threads_cfg = \<lparr>USE_ROMEAPI_THREADIdS = True, USE_ROMEAPI_REFCOUNT = False,
                  USE_ROMEAPI_ZEROATTRSIZE = False, MAX_SETSTR_SIZE = 1024\<rparr>"

definition fresh_state :: "int core" where
  "fresh_state = \<lparr>m_flags = {}, m_nThreadId = 0, m_sCommandLine = [],
                  Engine = \<lparr>update_stack = [], auto_update = True\<rparr>,
                  thread_strings = (\<lambda>_ _. []), calls = [], world = 1\<rparr>"

definition sample_after_init :: "int core" where
  "sample_after_init = \<lparr>m_flags = {DLLSTATE_INITROME}, m_nThreadId = 1, m_sCommandLine = [],
                        Engine = \<lparr>update_stack = [], auto_update = True\<rparr>,
                        thread_strings = (\<lambda>_ _. []), calls = [], world = 1\<rparr>"

text \<open>
  A sample database of three files: \<open>A\<close> (address 10) has a pointer attribute naming
  \<open>B\<close> and \<open>C\<close>, \<open>B\<close> (address 20) has one naming \<open>A\<close>, and \<open>C\<close> (address 30)
  has no attributes.
\<close>

definition sample_deps :: "int deps_env" where
  "sample_deps =
     \<lparr>files_Core = (\<lambda>fs s. App),
      FileSys_IsValid = (\<lambda>fs s. True),
      RomeFilesOpen = (\<lambda>fs name s.
         (if name = ''A'' then Some 10 else if name = ''B'' then Some 20
          else if name = ''C'' then Some 30 else None, s)),
      RomeFileClose = (\<lambda>f s. s),
      m_params = (\<lambda>f s. if f = 10 then [11] else if f = 20 then [21] else []),
      attr_GetListing = (\<lambda>a s. Some 0),
      listing_GetType = (\<lambda>l s. ATTR_PTR),
      attr_GetSize = (\<lambda>a s. if a = 11 then 2 else 1),
      attr_GetStr = (\<lambda>a i s. if a = 11 then (if i = 0 then ''B'' else ''C'') else ''A''),
      FileExists = (\<lambda>name s. True),
      attr_GetPtr = (\<lambda>a i s. if a = 11 then (if i = 0 then Some 102 else Some 103) else Some 101),
      IsFile = (\<lambda>p s. True),
      subobj_GetFileName = (\<lambda>p s. if p = 101 then ''A'' else if p = 102 then ''B'' else ''C''),
      ArrayFind = (\<lambda>xs x. if x \<in> set xs then int (length (takeWhile (\<lambda>y. y \<noteq> x) xs)) else - 1)\<rparr>"

section \<open>Properties\<close>

subsection \<open>The error buffer\<close>

lemma SetLastError_accepts_buffer:
  assumes "SetLastError_accepts cfg tid pApp s"
  shows "RomeThreadGetNamedString tid ''RomeGetLastError'' (snd (RomeSetLastError cfg tid pApp pszInfo s)) =
           (case pszInfo of
              None \<Rightarrow> []
            | Some [] \<Rightarrow> []
            | Some (c # rest) \<Rightarrow>
                let old = RomeThreadGetNamedString tid ''RomeGetLastError'' s in
                if c = CHR ''+'' then (if old = [] then rest else old @ ''\<newline>'' @ rest)
                else if c = CHR ''-'' then (if old = [] then rest else rest @ ''\<newline>'' @ old)
                else if c = CHR ''='' then rest
                else c # rest)"
  using assms
  by (auto simp: SetLastError_accepts_def RomeSetLastError_def RomeThreadGetNamedString_def
      RomeThreadSetNamedString_def strempty_def Let_def split: option.splits list.splits)

lemma SetLastError_accepts_preserved:
  assumes "SetLastError_accepts cfg tid pApp s"
  shows "SetLastError_accepts cfg tid pApp (snd (RomeSetLastError cfg tid pApp pszInfo s))"
  using assms
  by (auto simp: SetLastError_accepts_def RomeSetLastError_def HasFlag_def
      RomeThreadSetNamedString_def Let_def)

lemma GetLastError_reads_buffer:
  assumes "pApp = None \<or> pApp = Some App" "\<not> HasFlag DLLSTATE_CLOSED s"
    "\<not> USE_ROMEAPI_THREADIdS cfg"
  shows "fst (RomeGetLastError cfg tid pApp s) =
           Some (RomeThreadGetNamedString tid ''RomeGetLastError'' s)"
  using assms by (auto simp: RomeGetLastError_def)

lemma SetLastError_flags:
  "m_flags (snd (RomeSetLastError cfg tid pApp pszInfo s)) = m_flags s"
  by (simp add: RomeSetLastError_def RomeThreadSetNamedString_def Let_def)

text \<open>
  Claim C6. Whatever the buffer holds, an accepted \<^verbatim>\<open>RomeSetLastError\<close> call with text
  \<open>+t\<close> appends \<open>t\<close> on a new line (or stores \<open>t\<close> when the buffer is empty), \<open>-t\<close>
  prepends it on a new line, \<open>=t\<close> stores \<open>t\<close>, and text that starts with none of the
  three characters replaces the buffer. In an open session without the thread check,
  setting \<open>a\<close>, then \<open>+b\<close>, then \<open>-c\<close> makes \<^verbatim>\<open>RomeGetLastError\<close> return
  \<open>c\<newline>a\<newline>b\<close>, and a following \<open>=d\<close> makes it return \<open>d\<close>.
\<close>

theorem C6_error_buffer_editing:
  assumes acc: "SetLastError_accepts cfg tid pApp s"
  defines "buf \<equiv> RomeThreadGetNamedString tid ''RomeGetLastError''"
  defines "set_err \<equiv> \<lambda>t s. snd (RomeSetLastError cfg tid pApp (Some t) s)"
  shows "buf (set_err (CHR ''+'' # t) s) = (if buf s = [] then t else buf s @ ''\<newline>'' @ t)
       \<and> buf (set_err (CHR ''-'' # t) s) = (if buf s = [] then t else t @ ''\<newline>'' @ buf s)
       \<and> buf (set_err (CHR ''='' # t) s) = t
       \<and> ((t = [] \<or> hd t \<notin> {CHR ''+'', CHR ''-'', CHR ''=''}) \<longrightarrow> buf (set_err t s) = t)
       \<and> (pApp = Some App \<and> \<not> USE_ROMEAPI_THREADIdS cfg \<longrightarrow>
            fst (RomeGetLastError cfg tid pApp (set_err ''-c'' (set_err ''+b'' (set_err ''a'' s))))
              = Some ''c\<newline>a\<newline>b''
          \<and> fst (RomeGetLastError cfg tid pApp
                   (set_err ''=d'' (set_err ''-c'' (set_err ''+b'' (set_err ''a'' s)))))
              = Some ''d'')"
proof -
  have plus: "buf (set_err (CHR ''+'' # t) s) = (if buf s = [] then t else buf s @ ''\<newline>'' @ t)"
    unfolding buf_def set_err_def using SetLastError_accepts_buffer [OF acc, of "Some (CHR ''+'' # t)"]
    by (simp add: Let_def)
  have minus: "buf (set_err (CHR ''-'' # t) s) = (if buf s = [] then t else t @ ''\<newline>'' @ buf s)"
    unfolding buf_def set_err_def using SetLastError_accepts_buffer [OF acc, of "Some (CHR ''-'' # t)"]
    by (simp add: Let_def)
  have eq: "buf (set_err (CHR ''='' # t) s) = t"
    unfolding buf_def set_err_def using SetLastError_accepts_buffer [OF acc, of "Some (CHR ''='' # t)"]
    by (simp add: Let_def)
  have plain: "(t = [] \<or> hd t \<notin> {CHR ''+'', CHR ''-'', CHR ''=''}) \<longrightarrow> buf (set_err t s) = t"
    unfolding buf_def set_err_def using SetLastError_accepts_buffer [OF acc, of "Some t"]
    by (cases t) (auto simp: Let_def)
  have seq: "fst (RomeGetLastError cfg tid pApp (set_err ''-c'' (set_err ''+b'' (set_err ''a'' s))))
              = Some ''c\<newline>a\<newline>b''
          \<and> fst (RomeGetLastError cfg tid pApp
                   (set_err ''=d'' (set_err ''-c'' (set_err ''+b'' (set_err ''a'' s)))))
              = Some ''d''"
    if open_session: "pApp = Some App" "\<not> USE_ROMEAPI_THREADIdS cfg"
  proof -
    define s1 where "s1 = set_err ''a'' s"
    define s2 where "s2 = set_err ''+b'' s1"
    define s3 where "s3 = set_err ''-c'' s2"
    define s4 where "s4 = set_err ''=d'' s3"
    have a1: "SetLastError_accepts cfg tid pApp s1"
      unfolding s1_def set_err_def by (rule SetLastError_accepts_preserved [OF acc])
    have a2: "SetLastError_accepts cfg tid pApp s2"
      unfolding s2_def set_err_def by (rule SetLastError_accepts_preserved [OF a1])
    have a3: "SetLastError_accepts cfg tid pApp s3"
      unfolding s3_def set_err_def by (rule SetLastError_accepts_preserved [OF a2])
    have a4: "SetLastError_accepts cfg tid pApp s4"
      unfolding s4_def set_err_def by (rule SetLastError_accepts_preserved [OF a3])
    have b1: "buf s1 = ''a''"
      unfolding buf_def s1_def set_err_def
      using SetLastError_accepts_buffer [OF acc, of "Some ''a''"] by simp
    have b2: "buf s2 = ''a\<newline>b''"
      unfolding s2_def set_err_def
      using SetLastError_accepts_buffer [OF a1, of "Some ''+b''"] b1
      by (simp add: buf_def)
    have b3: "buf s3 = ''c\<newline>a\<newline>b''"
      unfolding s3_def set_err_def
      using SetLastError_accepts_buffer [OF a2, of "Some ''-c''"] b2
      by (simp add: buf_def)
    have b4: "buf s4 = ''d''"
      unfolding s4_def set_err_def
      using SetLastError_accepts_buffer [OF a3, of "Some ''=d''"]
      by (simp add: buf_def)
    have o3: "\<not> HasFlag DLLSTATE_CLOSED s3" and o4: "\<not> HasFlag DLLSTATE_CLOSED s4"
      using a3 a4 open_session by (auto simp: SetLastError_accepts_def)
    have "fst (RomeGetLastError cfg tid pApp s3) = Some ''c\<newline>a\<newline>b''"
      using GetLastError_reads_buffer [of pApp s3 cfg tid] open_session o3 b3
      by (simp add: buf_def)
    moreover have "fst (RomeGetLastError cfg tid pApp s4) = Some ''d''"
      using GetLastError_reads_buffer [of pApp s4 cfg tid] open_session o4 b4
      by (simp add: buf_def)
    ultimately show ?thesis
      by (simp add: s1_def s2_def s3_def s4_def)
  qed
  from plus minus eq plain seq show ?thesis by blast
qed

theorem C6_error_buffer_editing_witness:
  "SetLastError_accepts sample_cfg 1 (Some App) sample_core
   \<and> fst (RomeGetLastError sample_cfg 1 (Some App)
            (snd (RomeSetLastError sample_cfg 1 (Some App) (Some ''-c'')
              (snd (RomeSetLastError sample_cfg 1 (Some App) (Some ''+b'')
                (snd (RomeSetLastError sample_cfg 1 (Some App) (Some ''a'') sample_core)))))))
       = Some ''c\<newline>a\<newline>b''"
proof -
  have acc: "SetLastError_accepts sample_cfg 1 (Some App) sample_core"
    by (simp add: SetLastError_accepts_def sample_cfg_def sample_core_def HasFlag_def)
  have cfg: "\<not> USE_ROMEAPI_THREADIdS sample_cfg"
    by (simp add: sample_cfg_def)
  show ?thesis
    using C6_error_buffer_editing [OF acc, of "[]"] acc cfg by simp
qed

lemma and_then_Returns: "and_then (Returns a s) k = k a s"
  by (simp add: and_then_def)

lemma and_then_Throws: "and_then (Throws s) k = Throws s"
  by (simp add: and_then_def)

lemma try_catch_Returns: "try_catch (Returns a s) h = (a, s)"
  by (simp add: try_catch_def)

lemma try_catch_Throws: "try_catch (Throws s) h = h s"
  by (simp add: try_catch_def)

lemma resolve_ReturnsD:
  assumes "resolve E f name s = Returns pAttr s2"
  obtains s1 where "invoke CallFinishUpdates (FinishUpdates E) s = Returns () s1"
    and "invoke (CallFindOrCreate name f) (FindOrCreate E name f) s1 = Returns pAttr s2"
  using assms by (auto simp: resolve_def drain_def and_then_def split: outcome.splits)

lemma mod_id_iff: "(m mod 65536 = m) \<longleftrightarrow> 0 \<le> m \<and> m < (65536::int)"
proof
  assume h: "m mod 65536 = m"
  have "0 \<le> m mod 65536" "m mod 65536 < 65536" by simp_all
  with h show "0 \<le> m \<and> m < 65536" by simp
next
  assume "0 \<le> m \<and> m < 65536"
  then show "m mod 65536 = m" by simp
qed

lemma int16_id_iff: "int16 n = n \<longleftrightarrow> - 32768 \<le> n \<and> n \<le> 32767"
proof -
  have "int16 n = n \<longleftrightarrow> (n + 32768) mod 65536 = n + 32768"
    unfolding int16_def by linarith
  then show ?thesis using mod_id_iff [of "n + 32768"] by linarith
qed

lemma last_error_SETERROR:
  "c \<notin> {CHR ''+'', CHR ''-'', CHR ''=''} \<Longrightarrow> last_error tid (SETERROR cfg tid (c # msg) s) = c # msg"
  by (simp add: last_error_def SETERROR_def RomeSetLastError_def RomeThreadGetNamedString_def
      RomeThreadSetNamedString_def Let_def)


lemma SizeEx_resolved:
  assumes "file_call_valid cfg E tid f pszAttr s"
    and "resolve E f (cstr pszAttr) s = Returns (Some a) s2"
    and "drain E s2 = Returns () s3"
  shows "RomeFileGetAttrSizeEx cfg E tid (Some f) pszAttr s =
           (GetSize E a s3, note_call (CallGetSize a) s3)"
proof -
  from assms(2) obtain s1 where
    "invoke CallFinishUpdates (FinishUpdates E) s = Returns () s1"
    "invoke (CallFindOrCreate (cstr pszAttr) f) (FindOrCreate E (cstr pszAttr) f) s1 = Returns (Some a) s2"
    by (rule resolve_ReturnsD)
  with assms(1,3) show ?thesis
    unfolding RomeFileGetAttrSizeEx_def
    by (cases "USE_ROMEAPI_REFCOUNT cfg"; cases "USE_ROMEAPI_THREADIdS cfg")
       (simp_all add: file_call_valid_def drain_def and_then_Returns try_catch_Returns)
qed


lemma Size_resolved:
  assumes "file_call_valid cfg E tid f pszAttr s"
    and "resolve E f (cstr pszAttr) s = Returns (Some a) s2"
    and "drain E s2 = Returns () s3"
  shows "RomeFileGetAttrSize cfg E tid (Some f) pszAttr s =
           (if int16 (GetSize E a s3) = GetSize E a s3
            then (GetSize E a s3, note_call (CallGetSize a) s3)
            else (RX_FAILURE, SETERROR cfg tid ''RomeFileGetAttrSize: size is too large to cast to short.''
                   (note_call (CallGetSize a) s3)))"
proof -
  from assms(2) obtain s1 where
    "invoke CallFinishUpdates (FinishUpdates E) s = Returns () s1"
    "invoke (CallFindOrCreate (cstr pszAttr) f) (FindOrCreate E (cstr pszAttr) f) s1 = Returns (Some a) s2"
    by (rule resolve_ReturnsD)
  with assms(1,3) show ?thesis
    unfolding RomeFileGetAttrSize_def
    by (cases "USE_ROMEAPI_REFCOUNT cfg"; cases "USE_ROMEAPI_THREADIdS cfg")
       (simp_all add: file_call_valid_def drain_def and_then_Returns try_catch_Returns Let_def)
qed

text \<open>
  Claim C10. When the attribute resolves and the engine drains, let \<open>n\<close> be the size read
  after the drain. If \<open>n\<close> fits a signed 16-bit integer, \<^verbatim>\<open>RomeFileGetAttrSize\<close> and
  \<^verbatim>\<open>RomeFileGetAttrSizeEx\<close> both return \<open>n\<close>. If \<open>n\<close> exceeds 32767,
  \<^verbatim>\<open>RomeFileGetAttrSize\<close> returns -1 and sets the error text, and
  \<^verbatim>\<open>RomeFileGetAttrSizeEx\<close> returns \<open>n\<close>.
\<close>

theorem C10_short_size_limit:
  assumes "file_call_valid cfg E tid f pszAttr s"
    and "resolve E f (cstr pszAttr) s = Returns (Some a) s2"
    and "drain E s2 = Returns () s3"
  shows "(- 32768 \<le> GetSize E a s3 \<and> GetSize E a s3 \<le> 32767 \<longrightarrow>
            fst (RomeFileGetAttrSize cfg E tid (Some f) pszAttr s) = GetSize E a s3
          \<and> fst (RomeFileGetAttrSizeEx cfg E tid (Some f) pszAttr s) = GetSize E a s3)
       \<and> (GetSize E a s3 > 32767 \<longrightarrow>
            fst (RomeFileGetAttrSize cfg E tid (Some f) pszAttr s) = - 1
          \<and> last_error tid (snd (RomeFileGetAttrSize cfg E tid (Some f) pszAttr s)) =
              ''RomeFileGetAttrSize: size is too large to cast to short.''
          \<and> fst (RomeFileGetAttrSizeEx cfg E tid (Some f) pszAttr s) = GetSize E a s3)"
proof -
  note ex = SizeEx_resolved [OF assms]
  note sh = Size_resolved [OF assms]
  have fits: "int16 (GetSize E a s3) = GetSize E a s3"
    if "- 32768 \<le> GetSize E a s3 \<and> GetSize E a s3 \<le> 32767"
    using that by (simp add: int16_id_iff)
  have large: "int16 (GetSize E a s3) \<noteq> GetSize E a s3" if "GetSize E a s3 > 32767"
    using that by (simp add: int16_id_iff)
  show ?thesis
    using fits large
    by (auto simp add: ex sh RX_FAILURE_def last_error_SETERROR)
qed

lemma sample_valid:
  "file_call_valid sample_cfg sample_env 2 1 (Some ''LAYERS'') (sample_state n)"
  by (simp add: file_call_valid_def sample_cfg_def sample_env_def sample_state_def strempty_def
      HasFlag_def)

lemma sample_resolve:
  "resolve sample_env 1 (cstr (Some ''LAYERS'')) (sample_state n) = Returns (Some 10) (sample_s2 n)"
  by (simp add: resolve_def drain_def invoke_def FinishUpdates_def and_then_def sample_env_def
      sample_state_def sample_s2_def push_update_def cstr_def)

lemma sample_drain:
  "drain sample_env (sample_s2 n) = Returns () (sample_s3 n)"
  by (simp add: drain_def invoke_def FinishUpdates_def sample_env_def sample_s2_def sample_s3_def)

lemma sample_GetSize: "GetSize sample_env a (sample_s3 n) = n"
  by (simp add: sample_env_def sample_s3_def)

theorem C10_short_size_limit_witness:
  "file_call_valid sample_cfg sample_env 2 1 (Some ''LAYERS'') (sample_state 40000)
   \<and> fst (RomeFileGetAttrSize sample_cfg sample_env 2 (Some 1) (Some ''LAYERS'') (sample_state 40000)) = - 1
   \<and> fst (RomeFileGetAttrSizeEx sample_cfg sample_env 2 (Some 1) (Some ''LAYERS'') (sample_state 40000)) = 40000
   \<and> fst (RomeFileGetAttrSize sample_cfg sample_env 2 (Some 1) (Some ''LAYERS'') (sample_state 3)) = 3
   \<and> fst (RomeFileGetAttrSizeEx sample_cfg sample_env 2 (Some 1) (Some ''LAYERS'') (sample_state 3)) = 3"
  using C10_short_size_limit [OF sample_valid sample_resolve sample_drain, of 40000]
    C10_short_size_limit [OF sample_valid sample_resolve sample_drain, of 3]
    sample_valid [of 40000]
  by (simp add: sample_GetSize)

subsection \<open>The call log and the drain\<close>

lemma invoke_Returns_calls:
  "invoke c f s = Returns a s' \<Longrightarrow> calls s' = calls s @ [c]"
  by (auto simp: invoke_def split: outcome.splits)

lemma invoke_Throws_calls:
  "invoke c f s = Throws s' \<Longrightarrow> calls s' = calls s @ [c]"
  by (auto simp: invoke_def split: outcome.splits)

lemma drain_Returns:
  assumes "drain E s = Returns u s'"
  shows "update_stack (Engine s') = []" and "auto_update (Engine s') = auto_update (Engine s)"
    and "calls s' = calls s @ [CallFinishUpdates]"
  using assms
  by (auto simp: drain_def invoke_def FinishUpdates_def split: outcome.splits)

lemma drain_Throws:
  assumes "drain E s = Throws s'"
  shows "auto_update (Engine s') = auto_update (Engine s)"
  using assms
  by (auto simp: drain_def invoke_def FinishUpdates_def split: outcome.splits)

lemma resolve_Returns_calls:
  assumes "resolve E f name s = Returns pAttr s2"
  shows "calls s2 = calls s @ [CallFinishUpdates, CallFindOrCreate name f]"
proof -
  from assms obtain s1 where
    a: "invoke CallFinishUpdates (FinishUpdates E) s = Returns () s1" and
    b: "invoke (CallFindOrCreate name f) (FindOrCreate E name f) s1 = Returns pAttr s2"
    by (rule resolve_ReturnsD)
  show ?thesis
    using invoke_Returns_calls [OF a] invoke_Returns_calls [OF b] by simp
qed

lemma SETERROR_calls: "calls (SETERROR cfg tid msg s) = calls s"
  by (simp add: SETERROR_def RomeSetLastError_def RomeThreadSetNamedString_def Let_def)

lemma SETERROR_Engine: "Engine (SETERROR cfg tid msg s) = Engine s"
  by (simp add: SETERROR_def RomeSetLastError_def RomeThreadSetNamedString_def Let_def)

subsection \<open>The resize loop\<close>

lemma int32_id: "- 2147483648 \<le> n \<Longrightarrow> n < 2147483648 \<Longrightarrow> int32 n = n"
  by (simp add: int32_def)

lemma upt_0_Suc: "[0..<Suc k] = 0 # map Suc [0..<k]"
  by (simp add: upt_conv_Cons map_Suc_upt del: upt_Suc)

lemma resize_loop_delete_calls:
  assumes "resize_loop E a True k idx s = Returns () s'"
    and "- 2147483648 \<le> idx - int k" and "idx < 2147483648"
  shows "calls s' = calls s @ map (\<lambda>j. CallResizeDim (Some a) (idx - int j) True) [0..<k]"
  using assms
proof (induction k arbitrary: idx s)
  case 0
  then show ?case by simp
next
  case (Suc k)
  from Suc.prems(1) obtain r s1 where
    step: "invoke (CallResizeDim (Some a) idx True) (UserCmdResizeDim E (Some a) [] idx True) s = Returns r s1"
    and rest: "resize_loop E a True k (int32 (idx - 1)) s1 = Returns () s'"
    by (auto simp: and_then_def split: outcome.splits)
  have w: "int32 (idx - 1) = idx - 1"
    using Suc.prems(2,3) by (intro int32_id) auto
  have "calls s' = calls s1 @ map (\<lambda>j. CallResizeDim (Some a) (idx - 1 - int j) True) [0..<k]"
    using Suc.IH [of "idx - 1" s1] rest w Suc.prems(2,3) by simp
  moreover have "calls s1 = calls s @ [CallResizeDim (Some a) idx True]"
    by (rule invoke_Returns_calls [OF step])
  ultimately show ?case
    by (simp add: upt_0_Suc comp_def del: upt_Suc)
qed

lemma resize_loop_insert_calls:
  assumes "resize_loop E a False k idx s = Returns () s'"
    and "- 2147483648 \<le> idx" and "idx + int k < 2147483648"
  shows "calls s' = calls s @ map (\<lambda>j. CallResizeDim (Some a) (idx + int j) False) [0..<k]"
  using assms
proof (induction k arbitrary: idx s)
  case 0
  then show ?case by simp
next
  case (Suc k)
  from Suc.prems(1) obtain r s1 where
    step: "invoke (CallResizeDim (Some a) idx False) (UserCmdResizeDim E (Some a) [] idx False) s = Returns r s1"
    and rest: "resize_loop E a False k (int32 (idx + 1)) s1 = Returns () s'"
    by (auto simp: and_then_def split: outcome.splits)
  have w: "int32 (idx + 1) = idx + 1"
    using Suc.prems(2,3) by (intro int32_id) auto
  have "calls s' = calls s1 @ map (\<lambda>j. CallResizeDim (Some a) (idx + 1 + int j) False) [0..<k]"
    using Suc.IH [of "idx + 1" s1] rest w Suc.prems(2,3) by simp
  moreover have "calls s1 = calls s @ [CallResizeDim (Some a) idx False]"
    by (rule invoke_Returns_calls [OF step])
  ultimately show ?case
    by (simp add: upt_0_Suc comp_def del: upt_Suc)
qed

text \<open>When the resize command never throws, the loop runs to its end.\<close>

lemma resize_loop_returns:
  assumes "\<And>d i b st. \<exists>r st'. UserCmdResizeDim E d [] i b st = Returns r st'"
  shows "\<exists>s'. resize_loop E a b k idx s = Returns () s'"
proof (induction k arbitrary: idx s)
  case 0
  then show ?case by simp
next
  case (Suc k)
  from assms [of "Some a" idx b s] obtain r st' where
    "UserCmdResizeDim E (Some a) [] idx b s = Returns r st'" by blast
  then have "invoke (CallResizeDim (Some a) idx b) (UserCmdResizeDim E (Some a) [] idx b) s =
      Returns r (st'\<lparr>calls := calls s @ [CallResizeDim (Some a) idx b]\<rparr>)"
    by (simp add: invoke_def)
  then show ?case using Suc.IH by (simp add: and_then_def)
qed

lemma SetAttrSize_resolved:
  assumes "file_call_valid cfg E tid f pszAttr s"
    and "0 < nNewSize"
    and "resolve E f (cstr pszAttr) s = Returns (Some a) s2"
    and "IsDimension E a s2" and "CanUserResize E a s2"
    and "drain E s2 = Returns () s3"
  shows "RomeFileSetAttrSize cfg E tid (Some f) pszAttr nNewSize s =
           (case resize_loop E a (int32 (nNewSize - GetSize E a s3) < 0)
                   (nat (int32 \<bar>int32 (nNewSize - GetSize E a s3)\<bar>))
                   (if int32 (nNewSize - GetSize E a s3) < 0 then int32 (GetSize E a s3 - 1)
                    else GetSize E a s3)
                   (note_call (CallGetSize a) s3) of
              Returns _ s5 \<Rightarrow> (if GetSize E a s3 \<noteq> nNewSize then 1 else 0, s5)
            | Throws s5 \<Rightarrow>
                (RX_FAILURE,
                 SETERROR cfg tid
                   (exception_text E ''RomeFileSetAttrSize'' (Some f) pszAttr @ '', Size = '' @
                    FormatInt E nNewSize @ ''.'') s5))"
proof -
  from assms(3) obtain s1 where
    "invoke CallFinishUpdates (FinishUpdates E) s = Returns () s1"
    "invoke (CallFindOrCreate (cstr pszAttr) f) (FindOrCreate E (cstr pszAttr) f) s1 = Returns (Some a) s2"
    by (rule resolve_ReturnsD)
  with assms(1,2,4,5,6) show ?thesis
    unfolding RomeFileSetAttrSize_def
    by (cases "USE_ROMEAPI_REFCOUNT cfg"; cases "USE_ROMEAPI_THREADIdS cfg")
       (simp_all add: file_call_valid_def drain_def and_then_def try_catch_def Let_def
          split: outcome.splits)
qed


lemma SetAttrSize_invalid:
  "pFile = None \<or> (pFile = Some f \<and> \<not> file_call_valid cfg E tid f pszAttr s) \<or> nNewSize \<le> 0
   \<Longrightarrow> fst (RomeFileSetAttrSize cfg E tid pFile pszAttr nNewSize s) = - 1"
  unfolding RomeFileSetAttrSize_def
  by (cases pFile) (auto simp: file_call_valid_def RX_FAILURE_def)

lemma SetAttrSize_not_resizable:
  assumes "file_call_valid cfg E tid f pszAttr s"
    and "0 < nNewSize"
    and "resolve E f (cstr pszAttr) s = Returns (Some a) s2"
    and "\<not> IsDimension E a s2 \<or> \<not> CanUserResize E a s2"
  shows "fst (RomeFileSetAttrSize cfg E tid (Some f) pszAttr nNewSize s) = - 1"
proof -
  from assms(3) obtain s1 where
    "invoke CallFinishUpdates (FinishUpdates E) s = Returns () s1"
    "invoke (CallFindOrCreate (cstr pszAttr) f) (FindOrCreate E (cstr pszAttr) f) s1 = Returns (Some a) s2"
    by (rule resolve_ReturnsD)
  with assms(1,2,4) show ?thesis
    unfolding RomeFileSetAttrSize_def
    by (cases "USE_ROMEAPI_REFCOUNT cfg"; cases "USE_ROMEAPI_THREADIdS cfg")
       (auto simp add: file_call_valid_def and_then_def try_catch_def RX_FAILURE_def)
qed

lemma resize_loop_delete_rows:
  assumes "- 2147483648 \<le> idx - int k" and "idx < 2147483648"
  shows "resize_loop E a True k idx s =
           row_operations E a True (map (\<lambda>j. idx - int j) [0..<k]) s"
  using assms
proof (induction k arbitrary: idx s)
  case 0
  show ?case by simp
next
  case (Suc k)
  have w: "int32 (idx - 1) = idx - 1"
    using Suc.prems by (intro int32_id) auto
  have f: "(\<lambda>j. idx - 1 - int j) = (\<lambda>j. idx - (1 + int j))"
    by (simp add: fun_eq_iff)
  have ih: "\<And>s'. resize_loop E a True k (idx - 1) s' =
      row_operations E a True (map (\<lambda>j. idx - (1 + int j)) [0..<k]) s'"
    unfolding f [symmetric] using Suc.prems by (intro Suc.IH) auto
  show ?case
    by (simp add: upt_0_Suc comp_def w ih and_then_def del: upt_Suc split: outcome.splits)
qed

lemma resize_loop_insert_rows:
  assumes "- 2147483648 \<le> idx" and "idx + int k < 2147483648"
  shows "resize_loop E a False k idx s =
           row_operations E a False (map (\<lambda>j. idx + int j) [0..<k]) s"
  using assms
proof (induction k arbitrary: idx s)
  case 0
  show ?case by simp
next
  case (Suc k)
  have w: "int32 (idx + 1) = idx + 1"
    using Suc.prems by (intro int32_id) auto
  have f: "(\<lambda>j. idx + 1 + int j) = (\<lambda>j. idx + (1 + int j))"
    by (simp add: fun_eq_iff)
  have ih: "\<And>s'. resize_loop E a False k (idx + 1) s' =
      row_operations E a False (map (\<lambda>j. idx + (1 + int j)) [0..<k]) s'"
    unfolding f [symmetric] using Suc.prems by (intro Suc.IH) auto
  show ?case
    by (simp add: upt_0_Suc comp_def w ih and_then_def del: upt_Suc split: outcome.splits)
qed

lemma row_operations_calls:
  "row_operations E a b idxs s = Returns () s' \<Longrightarrow>
   calls s' = calls s @ map (\<lambda>i. CallResizeDim (Some a) i b) idxs"
proof (induction idxs arbitrary: s)
  case Nil
  then show ?case by simp
next
  case (Cons i idxs)
  from Cons.prems obtain r s1 where
    step: "invoke (CallResizeDim (Some a) i b) (UserCmdResizeDim E (Some a) [] i b) s = Returns r s1"
    and rest: "row_operations E a b idxs s1 = Returns () s'"
    by (auto split: outcome.splits)
  from Cons.IH [OF rest] invoke_Returns_calls [OF step] show ?case by simp
qed

lemma SetAttrSize_resolved_rows:
  assumes "file_call_valid cfg E tid f pszAttr s"
    and "0 < nNewSize"
    and "resolve E f (cstr pszAttr) s = Returns (Some a) s2"
    and "IsDimension E a s2" and "CanUserResize E a s2"
    and "drain E s2 = Returns () s3"
  shows "RomeFileSetAttrSize cfg E tid (Some f) pszAttr nNewSize s =
           (case resize_rows E a (GetSize E a s3) nNewSize (note_call (CallGetSize a) s3) of
              Returns _ s5 \<Rightarrow> (if GetSize E a s3 \<noteq> nNewSize then 1 else 0, s5)
            | Throws s5 \<Rightarrow>
                (RX_FAILURE,
                 SETERROR cfg tid
                   (exception_text E ''RomeFileSetAttrSize'' (Some f) pszAttr @ '', Size = '' @
                    FormatInt E nNewSize @ ''.'') s5))"
  unfolding SetAttrSize_resolved [OF assms] resize_rows_def Let_def ..

text \<open>
  For sizes of the 32-bit type \<^verbatim>\<open>RT_INT\<close> the loop of lines 4076-4087 is the resize
  command run at the indices \<open>old - 1\<close>, \<open>old - 2\<close>, ... (\<open>old - new\<close> of them) when
  the attribute shrinks, and at \<open>old\<close>, \<open>old + 1\<close>, ... (\<open>new - old\<close> of them) when
  it grows.
\<close>

lemma resize_rows_row_operations:
  assumes "0 < nNewSize" "nNewSize < 2147483648" "0 \<le> old" "old < 2147483648"
  shows "resize_rows E a old nNewSize s =
           row_operations E a (nNewSize < old)
             (if nNewSize < old then map (\<lambda>j. old - 1 - int j) [0..<nat (old - nNewSize)]
              else map (\<lambda>j. old + int j) [0..<nat (nNewSize - old)]) s"
proof -
  have d: "int32 (nNewSize - old) = nNewSize - old"
    using assms by (intro int32_id) auto
  show ?thesis
  proof (cases "nNewSize < old")
    case True
    have a: "int32 (old - nNewSize) = old - nNewSize"
      using True assms by (intro int32_id) auto
    have i: "int32 (old - 1) = old - 1"
      using assms by (intro int32_id) auto
    have "resize_loop E a True (nat (old - nNewSize)) (old - 1) s =
        row_operations E a True (map (\<lambda>j. old - 1 - int j) [0..<nat (old - nNewSize)]) s"
      using True assms by (intro resize_loop_delete_rows) auto
    with True show ?thesis
      by (simp add: resize_rows_def Let_def d a i)
  next
    case False
    have "resize_loop E a False (nat (nNewSize - old)) old s =
        row_operations E a False (map (\<lambda>j. old + int j) [0..<nat (nNewSize - old)]) s"
      using False assms by (intro resize_loop_insert_rows) auto
    with False show ?thesis
      by (simp add: resize_rows_def Let_def d)
  qed
qed

text \<open>
  Claim C2. On a resolved, user-resizable dimension attribute of size \<open>old\<close>, a call of
  \<^verbatim>\<open>RomeFileSetAttrSize\<close> that does not end in failure has, after the drain and the read
  of the old size, run the resize command \<^verbatim>\<open>UserCmdResizeDim\<close> exactly so: for
  \<open>new < old\<close>, \<open>old - new\<close> deletions at the indices \<open>old - 1\<close>, \<open>old - 2\<close>, ...; for
  \<open>new > old\<close>, \<open>new - old\<close> insertions at the indices \<open>old\<close>, \<open>old + 1\<close>, ...; for
  \<open>new = old\<close>, none. The state the call returns is the state these commands, each started
  where the previous one ended, have left, and the call log lists them in this order. Sizes
  are values of the 32-bit type \<^verbatim>\<open>RT_INT\<close>.
\<close>

theorem C2_resize_algorithm:
  assumes valid: "file_call_valid cfg E tid f pszAttr s"
    and new: "0 < nNewSize" "nNewSize < 2147483648"
    and res: "resolve E f (cstr pszAttr) s = Returns (Some a) s2"
    and dim: "IsDimension E a s2" "CanUserResize E a s2"
    and dr: "drain E s2 = Returns () s3"
    and old: "0 \<le> GetSize E a s3" "GetSize E a s3 < 2147483648"
    and ok: "fst (RomeFileSetAttrSize cfg E tid (Some f) pszAttr nNewSize s) \<noteq> - 1"
  shows "row_operations E a (nNewSize < GetSize E a s3)
           (if nNewSize < GetSize E a s3 then
              map (\<lambda>j. GetSize E a s3 - 1 - int j) [0..<nat (GetSize E a s3 - nNewSize)]
            else
              map (\<lambda>j. GetSize E a s3 + int j) [0..<nat (nNewSize - GetSize E a s3)])
           (note_call (CallGetSize a) s3)
           = Returns () (snd (RomeFileSetAttrSize cfg E tid (Some f) pszAttr nNewSize s))
       \<and> calls (snd (RomeFileSetAttrSize cfg E tid (Some f) pszAttr nNewSize s)) =
           calls s @ [CallFinishUpdates, CallFindOrCreate (cstr pszAttr) f, CallFinishUpdates,
                      CallGetSize a] @
           (if nNewSize < GetSize E a s3 then
              map (\<lambda>j. CallResizeDim (Some a) (GetSize E a s3 - 1 - int j) True)
                [0..<nat (GetSize E a s3 - nNewSize)]
            else
              map (\<lambda>j. CallResizeDim (Some a) (GetSize E a s3 + int j) False)
                [0..<nat (nNewSize - GetSize E a s3)])"
proof -
  define old where "old = GetSize E a s3"
  define s4 where "s4 = note_call (CallGetSize a) s3"
  define idxs where "idxs =
    (if nNewSize < old then map (\<lambda>j. old - 1 - int j) [0..<nat (old - nNewSize)]
     else map (\<lambda>j. old + int j) [0..<nat (nNewSize - old)])"
  have pre: "calls s4 = calls s @ [CallFinishUpdates, CallFindOrCreate (cstr pszAttr) f,
      CallFinishUpdates, CallGetSize a]"
    using resolve_Returns_calls [OF res] drain_Returns(3) [OF dr]
    by (simp add: s4_def note_call_def)
  have rows: "resize_rows E a old nNewSize s4 = row_operations E a (nNewSize < old) idxs s4"
    unfolding idxs_def using new old by (intro resize_rows_row_operations) (auto simp: old_def)
  note u = SetAttrSize_resolved_rows [OF valid new(1) res dim dr, folded old_def s4_def]
  from ok u obtain s5 where
    loop: "resize_rows E a old nNewSize s4 = Returns () s5"
    and fin: "snd (RomeFileSetAttrSize cfg E tid (Some f) pszAttr nNewSize s) = s5"
    by (auto simp: RX_FAILURE_def split: outcome.splits)
  have run: "row_operations E a (nNewSize < old) idxs s4 =
      Returns () (snd (RomeFileSetAttrSize cfg E tid (Some f) pszAttr nNewSize s))"
    using loop rows fin by simp
  have "calls (snd (RomeFileSetAttrSize cfg E tid (Some f) pszAttr nNewSize s)) =
      calls s4 @ map (\<lambda>i. CallResizeDim (Some a) i (nNewSize < old)) idxs"
    by (rule row_operations_calls [OF run])
  then have log: "calls (snd (RomeFileSetAttrSize cfg E tid (Some f) pszAttr nNewSize s)) =
      calls s @ [CallFinishUpdates, CallFindOrCreate (cstr pszAttr) f, CallFinishUpdates,
                 CallGetSize a] @
      (if nNewSize < old then
         map (\<lambda>j. CallResizeDim (Some a) (old - 1 - int j) True) [0..<nat (old - nNewSize)]
       else
         map (\<lambda>j. CallResizeDim (Some a) (old + int j) False) [0..<nat (nNewSize - old)])"
    using pre by (simp add: idxs_def comp_def)
  from run log show ?thesis
    unfolding idxs_def old_def s4_def by blast
qed

lemma sample_dimension:
  "IsDimension sample_env a s" "CanUserResize sample_env a s"
  by (simp_all add: sample_env_def)

lemma sample_never_throws:
  "\<exists>r st'. UserCmdResizeDim sample_env d [] i b st = Returns r st'"
  by (simp add: sample_env_def)

lemma sample_grow:
  "RomeFileSetAttrSize sample_cfg sample_env 2 (Some 1) (Some ''LAYERS'') 3 (sample_state 1) =
     (1, sample_grown)"
proof -
  have pos: "(0::int) < 3" by simp
  note u = SetAttrSize_resolved [OF sample_valid pos sample_resolve sample_dimension sample_drain]
  show ?thesis
    unfolding u
    by (simp add: sample_GetSize int32_def numeral_2_eq_2 and_then_def invoke_def note_call_def
        sample_env_def sample_s3_def sample_grown_def push_update_def)
qed

lemma sample_shrink:
  "RomeFileSetAttrSize sample_cfg sample_env 2 (Some 1) (Some ''LAYERS'') 1 (sample_state 3) =
     (1, sample_shrunk)"
proof -
  have pos: "(0::int) < 1" by simp
  note u = SetAttrSize_resolved [OF sample_valid pos sample_resolve sample_dimension sample_drain]
  show ?thesis
    unfolding u
    by (simp add: sample_GetSize int32_def numeral_2_eq_2 and_then_def invoke_def note_call_def
        sample_env_def sample_s3_def sample_shrunk_def push_update_def)
qed

theorem C2_resize_algorithm_witness:
  "calls (snd (RomeFileSetAttrSize sample_cfg sample_env 2 (Some 1) (Some ''LAYERS'') 3 (sample_state 1)))
     = [CallFinishUpdates, CallFindOrCreate ''LAYERS'' 1, CallFinishUpdates, CallGetSize 10,
        CallResizeDim (Some 10) 1 False, CallResizeDim (Some 10) 2 False]
   \<and> row_operations sample_env 10 False [1, 2] (note_call (CallGetSize 10) (sample_s3 1))
     = Returns () (snd (RomeFileSetAttrSize sample_cfg sample_env 2 (Some 1) (Some ''LAYERS'') 3
                          (sample_state 1)))
   \<and> world (snd (RomeFileSetAttrSize sample_cfg sample_env 2 (Some 1) (Some ''LAYERS'') 3 (sample_state 1)))
     = 3
   \<and> calls (snd (RomeFileSetAttrSize sample_cfg sample_env 2 (Some 1) (Some ''LAYERS'') 1 (sample_state 3)))
     = [CallFinishUpdates, CallFindOrCreate ''LAYERS'' 1, CallFinishUpdates, CallGetSize 10,
        CallResizeDim (Some 10) 2 True, CallResizeDim (Some 10) 1 True]
   \<and> row_operations sample_env 10 True [2, 1] (note_call (CallGetSize 10) (sample_s3 3))
     = Returns () (snd (RomeFileSetAttrSize sample_cfg sample_env 2 (Some 1) (Some ''LAYERS'') 1
                          (sample_state 3)))
   \<and> world (snd (RomeFileSetAttrSize sample_cfg sample_env 2 (Some 1) (Some ''LAYERS'') 1 (sample_state 3)))
     = 1"
proof -
  have ok1: "fst (RomeFileSetAttrSize sample_cfg sample_env 2 (Some 1) (Some ''LAYERS'') 3 (sample_state 1)) \<noteq> - 1"
    unfolding sample_grow by simp
  have ok2: "fst (RomeFileSetAttrSize sample_cfg sample_env 2 (Some 1) (Some ''LAYERS'') 1 (sample_state 3)) \<noteq> - 1"
    unfolding sample_shrink by simp
  have g: "calls (snd (RomeFileSetAttrSize sample_cfg sample_env 2 (Some 1) (Some ''LAYERS'') 3 (sample_state 1)))
     = [CallFinishUpdates, CallFindOrCreate ''LAYERS'' 1, CallFinishUpdates, CallGetSize 10,
        CallResizeDim (Some 10) 1 False, CallResizeDim (Some 10) 2 False]
   \<and> row_operations sample_env 10 False [1, 2] (note_call (CallGetSize 10) (sample_s3 1))
     = Returns () (snd (RomeFileSetAttrSize sample_cfg sample_env 2 (Some 1) (Some ''LAYERS'') 3
                          (sample_state 1)))"
    using C2_resize_algorithm [OF sample_valid _ _ sample_resolve sample_dimension sample_drain _ _ ok1]
    by (simp add: sample_GetSize sample_state_def cstr_def numeral_2_eq_2)
  have h: "calls (snd (RomeFileSetAttrSize sample_cfg sample_env 2 (Some 1) (Some ''LAYERS'') 1 (sample_state 3)))
     = [CallFinishUpdates, CallFindOrCreate ''LAYERS'' 1, CallFinishUpdates, CallGetSize 10,
        CallResizeDim (Some 10) 2 True, CallResizeDim (Some 10) 1 True]
   \<and> row_operations sample_env 10 True [2, 1] (note_call (CallGetSize 10) (sample_s3 3))
     = Returns () (snd (RomeFileSetAttrSize sample_cfg sample_env 2 (Some 1) (Some ''LAYERS'') 1
                          (sample_state 3)))"
    using C2_resize_algorithm [OF sample_valid _ _ sample_resolve sample_dimension sample_drain _ _ ok2]
    by (simp add: sample_GetSize sample_state_def cstr_def numeral_2_eq_2)
  have w: "world (snd (RomeFileSetAttrSize sample_cfg sample_env 2 (Some 1) (Some ''LAYERS'') 3 (sample_state 1))) = 3"
    "world (snd (RomeFileSetAttrSize sample_cfg sample_env 2 (Some 1) (Some ''LAYERS'') 1 (sample_state 3))) = 1"
    unfolding sample_grow sample_shrink by (simp_all add: sample_grown_def sample_shrunk_def)
  from g h w show ?thesis by blast
qed

text \<open>
  Claim C3. \<^verbatim>\<open>RomeFileSetAttrSize\<close> returns -1 whenever a precondition fails: for a null
  file, for a call that fails the checks on file and name, for every requested size
  \<open>\<le> 0\<close>, for an attribute that is not a dimension and for one that is not
  user-resizable. On a resizable dimension it returns 0 when the old size equals the
  requested one; when they differ it returns 1, unless the resize command throws and the
  handler returns -1.
\<close>

theorem C3_resize_return_contract:
  "(pFile = None \<or> (pFile = Some f \<and> \<not> file_call_valid cfg E tid f pszAttr s) \<or> nNewSize \<le> 0
      \<longrightarrow> fst (RomeFileSetAttrSize cfg E tid pFile pszAttr nNewSize s) = - 1)
   \<and> (file_call_valid cfg E tid f pszAttr s \<and> 0 < nNewSize
        \<and> resolve E f (cstr pszAttr) s = Returns (Some a) s2 \<longrightarrow>
        (\<not> IsDimension E a s2 \<or> \<not> CanUserResize E a s2 \<longrightarrow>
           fst (RomeFileSetAttrSize cfg E tid (Some f) pszAttr nNewSize s) = - 1)
      \<and> (IsDimension E a s2 \<and> CanUserResize E a s2 \<and> drain E s2 = Returns () s3 \<longrightarrow>
           (GetSize E a s3 = nNewSize \<longrightarrow>
              fst (RomeFileSetAttrSize cfg E tid (Some f) pszAttr nNewSize s) = 0)
         \<and> (GetSize E a s3 \<noteq> nNewSize \<longrightarrow>
              fst (RomeFileSetAttrSize cfg E tid (Some f) pszAttr nNewSize s) \<in> {1, - 1})
         \<and> (GetSize E a s3 \<noteq> nNewSize
              \<and> (\<forall>d i b st. \<exists>r st'. UserCmdResizeDim E d [] i b st = Returns r st') \<longrightarrow>
              fst (RomeFileSetAttrSize cfg E tid (Some f) pszAttr nNewSize s) = 1)))"
proof -
  have invalid: "fst (RomeFileSetAttrSize cfg E tid pFile pszAttr nNewSize s) = - 1"
    if "pFile = None \<or> (pFile = Some f \<and> \<not> file_call_valid cfg E tid f pszAttr s) \<or> nNewSize \<le> 0"
    using that by (rule SetAttrSize_invalid)
  have resolved: "(\<not> IsDimension E a s2 \<or> \<not> CanUserResize E a s2 \<longrightarrow>
           fst (RomeFileSetAttrSize cfg E tid (Some f) pszAttr nNewSize s) = - 1)
      \<and> (IsDimension E a s2 \<and> CanUserResize E a s2 \<and> drain E s2 = Returns () s3 \<longrightarrow>
           (GetSize E a s3 = nNewSize \<longrightarrow>
              fst (RomeFileSetAttrSize cfg E tid (Some f) pszAttr nNewSize s) = 0)
         \<and> (GetSize E a s3 \<noteq> nNewSize \<longrightarrow>
              fst (RomeFileSetAttrSize cfg E tid (Some f) pszAttr nNewSize s) \<in> {1, - 1})
         \<and> (GetSize E a s3 \<noteq> nNewSize
              \<and> (\<forall>d i b st. \<exists>r st'. UserCmdResizeDim E d [] i b st = Returns r st') \<longrightarrow>
              fst (RomeFileSetAttrSize cfg E tid (Some f) pszAttr nNewSize s) = 1))"
    if h: "file_call_valid cfg E tid f pszAttr s" "0 < nNewSize"
      "resolve E f (cstr pszAttr) s = Returns (Some a) s2"
  proof (intro conjI impI)
    assume "\<not> IsDimension E a s2 \<or> \<not> CanUserResize E a s2"
    then show "fst (RomeFileSetAttrSize cfg E tid (Some f) pszAttr nNewSize s) = - 1"
      by (rule SetAttrSize_not_resizable [OF h])
  next
    assume d: "IsDimension E a s2 \<and> CanUserResize E a s2 \<and> drain E s2 = Returns () s3"
      and e: "GetSize E a s3 = nNewSize"
    from d have d1: "IsDimension E a s2" and d2: "CanUserResize E a s2"
      and d3: "drain E s2 = Returns () s3" by simp_all
    note u = SetAttrSize_resolved [OF h d1 d2 d3]
    show "fst (RomeFileSetAttrSize cfg E tid (Some f) pszAttr nNewSize s) = 0"
      unfolding u using e by (simp add: int32_def)
  next
    assume d: "IsDimension E a s2 \<and> CanUserResize E a s2 \<and> drain E s2 = Returns () s3"
      and e: "GetSize E a s3 \<noteq> nNewSize"
    from d have d1: "IsDimension E a s2" and d2: "CanUserResize E a s2"
      and d3: "drain E s2 = Returns () s3" by simp_all
    note u = SetAttrSize_resolved [OF h d1 d2 d3]
    show "fst (RomeFileSetAttrSize cfg E tid (Some f) pszAttr nNewSize s) \<in> {1, - 1}"
      unfolding u using e by (simp add: RX_FAILURE_def split: outcome.splits)
  next
    assume d: "IsDimension E a s2 \<and> CanUserResize E a s2 \<and> drain E s2 = Returns () s3"
      and e: "GetSize E a s3 \<noteq> nNewSize
              \<and> (\<forall>d i b st. \<exists>r st'. UserCmdResizeDim E d [] i b st = Returns r st')"
    from d have d1: "IsDimension E a s2" and d2: "CanUserResize E a s2"
      and d3: "drain E s2 = Returns () s3" by simp_all
    note u = SetAttrSize_resolved [OF h d1 d2 d3]
    from e have nt: "\<And>d i b st. \<exists>r st'. UserCmdResizeDim E d [] i b st = Returns r st'"
      by blast
    obtain s5 where "resize_loop E a (int32 (nNewSize - GetSize E a s3) < 0)
                   (nat (int32 \<bar>int32 (nNewSize - GetSize E a s3)\<bar>))
                   (if int32 (nNewSize - GetSize E a s3) < 0 then int32 (GetSize E a s3 - 1)
                    else GetSize E a s3)
                   (note_call (CallGetSize a) s3) = Returns () s5"
      using resize_loop_returns [OF nt] by blast
    then show "fst (RomeFileSetAttrSize cfg E tid (Some f) pszAttr nNewSize s) = 1"
      unfolding u using e by simp
  qed
  from invalid resolved show ?thesis by blast
qed

theorem C3_resize_return_contract_witness:
  "fst (RomeFileSetAttrSize sample_cfg sample_env 2 (Some 1) (Some ''LAYERS'') 0 (sample_state 1)) = - 1
   \<and> fst (RomeFileSetAttrSize sample_cfg sample_env 2 (Some 1) (Some ''LAYERS'') 1 (sample_state 1)) = 0
   \<and> fst (RomeFileSetAttrSize sample_cfg sample_env 2 (Some 1) (Some ''LAYERS'') 3 (sample_state 1)) = 1"
proof -
  have nt: "\<forall>d i b st. \<exists>r st'. UserCmdResizeDim sample_env d [] i b st = Returns r st'"
    using sample_never_throws by blast
  have z: "fst (RomeFileSetAttrSize sample_cfg sample_env 2 (Some 1) (Some ''LAYERS'') 0 (sample_state 1)) = - 1"
    using C3_resize_return_contract [of "Some 1" 1 sample_cfg sample_env 2 "Some ''LAYERS''"
        "sample_state 1" 0]
    by simp
  have e: "fst (RomeFileSetAttrSize sample_cfg sample_env 2 (Some 1) (Some ''LAYERS'') 1 (sample_state 1)) = 0"
    using C3_resize_return_contract [of "Some 1" 1 sample_cfg sample_env 2 "Some ''LAYERS''"
        "sample_state 1" 1 10 "sample_s2 1" "sample_s3 1"]
      sample_valid [of 1] sample_resolve [of 1] sample_drain [of 1] sample_dimension
    by (simp add: sample_GetSize)
  have g: "fst (RomeFileSetAttrSize sample_cfg sample_env 2 (Some 1) (Some ''LAYERS'') 3 (sample_state 1)) = 1"
    using C3_resize_return_contract [of "Some 1" 1 sample_cfg sample_env 2 "Some ''LAYERS''"
        "sample_state 1" 3 10 "sample_s2 1" "sample_s3 1"]
      sample_valid [of 1] sample_resolve [of 1] sample_drain [of 1] sample_dimension nt
    by (simp add: sample_GetSize)
  from z e g show ?thesis by simp
qed

subsection \<open>The drain discipline\<close>

lemma DimSize_resolved:
  assumes "file_call_valid cfg E tid f pszAttr s"
    and "resolve E f (cstr pszAttr) s = Returns (Some a) s2"
    and "drain E s2 = Returns () s3"
  shows "RomeFileGetAttrDimSize cfg E tid (Some f) pszAttr nDim s =
           (dimensions_GetSize E a nDim s3, note_call (CallDimGetSize a nDim) s3)"
proof -
  from assms(2) obtain s1 where
    "invoke CallFinishUpdates (FinishUpdates E) s = Returns () s1"
    "invoke (CallFindOrCreate (cstr pszAttr) f) (FindOrCreate E (cstr pszAttr) f) s1 = Returns (Some a) s2"
    by (rule resolve_ReturnsD)
  with assms(1,3) show ?thesis
    unfolding RomeFileGetAttrDimSize_def
    by (cases "USE_ROMEAPI_REFCOUNT cfg"; cases "USE_ROMEAPI_THREADIdS cfg")
       (simp_all add: file_call_valid_def drain_def and_then_Returns try_catch_Returns)
qed

lemma GetAttrValueAux_resolved:
  assumes "file_call_valid cfg E tid f pszAttr s"
    and "0 \<le> nIndex"
    and "resolve E f (cstr pszAttr) s = Returns (Some a) s2"
    and "drain E s2 = Returns () s3"
  shows "RomeFileGetAttrValueAux cfg E tid (Some f) pszAttr nIndex nVariant pszUnit s =
           (if \<not> IsValidUnits E a pszUnit s3 then (None, s3)
            else
              case invoke (CallAttrGetStr a nIndex)
                     (AttrGetStr E a nIndex nVariant (if length pszUnit = 0 then ''#U_TEMPLATE'' else pszUnit))
                     s3 of
                Returns pszValue s4 \<Rightarrow>
                  (Some (case pszValue of None \<Rightarrow> ''NULL'' | Some v \<Rightarrow> v), s4)
              | Throws s4 \<Rightarrow>
                  (None,
                   SETERROR cfg tid
                     (exception_text E ''RomeFileGetAttrValue'' (Some f) pszAttr @ '', Index = '' @
                      FormatInt E nIndex @ ''.'') s4))"
proof -
  from assms(3) obtain s1 where
    "invoke CallFinishUpdates (FinishUpdates E) s = Returns () s1"
    "invoke (CallFindOrCreate (cstr pszAttr) f) (FindOrCreate E (cstr pszAttr) f) s1 = Returns (Some a) s2"
    by (rule resolve_ReturnsD)
  moreover from assms(2) have "nIndex \<noteq> - 1" by simp
  ultimately show ?thesis
    using assms(1,2,4)
    unfolding RomeFileGetAttrValueAux_def
    by (cases "USE_ROMEAPI_REFCOUNT cfg"; cases "USE_ROMEAPI_THREADIdS cfg")
       (simp_all add: file_call_valid_def drain_def and_then_def try_catch_def Let_def
          split: outcome.splits option.splits)
qed

lemma resize_loop_only_row_operations:
  assumes "resize_loop E a b k idx s = Returns u s' \<or> resize_loop E a b k idx s = Throws s'"
  shows "\<exists>ops. calls s' = calls s @ ops \<and> (\<forall>c \<in> set ops. \<exists>i. c = CallResizeDim (Some a) i b)"
  using assms
proof (induction k arbitrary: idx s)
  case 0
  then show ?case by simp
next
  case (Suc k)
  show ?case
  proof (cases "invoke (CallResizeDim (Some a) idx b) (UserCmdResizeDim E (Some a) [] idx b) s")
    case (Returns r s1)
    with Suc.prems have rest:
      "resize_loop E a b k (if b then int32 (idx - 1) else int32 (idx + 1)) s1 = Returns u s'
       \<or> resize_loop E a b k (if b then int32 (idx - 1) else int32 (idx + 1)) s1 = Throws s'"
      by (simp add: and_then_def)
    from Suc.IH [OF rest] obtain ops where
      ops: "calls s' = calls s1 @ ops" "\<forall>c \<in> set ops. \<exists>i. c = CallResizeDim (Some a) i b"
      by blast
    have "calls s1 = calls s @ [CallResizeDim (Some a) idx b]"
      by (rule invoke_Returns_calls [OF Returns])
    with ops have "calls s' = calls s @ (CallResizeDim (Some a) idx b # ops)
        \<and> (\<forall>c \<in> set (CallResizeDim (Some a) idx b # ops). \<exists>i. c = CallResizeDim (Some a) i b)"
      by simp
    then show ?thesis by blast
  next
    case (Throws s1)
    with Suc.prems have "s' = s1" by (simp add: and_then_def)
    moreover have "calls s1 = calls s @ [CallResizeDim (Some a) idx b]"
      by (rule invoke_Throws_calls [OF Throws])
    ultimately have "calls s' = calls s @ [CallResizeDim (Some a) idx b]
        \<and> (\<forall>c \<in> set [CallResizeDim (Some a) idx b]. \<exists>i. c = CallResizeDim (Some a) i b)"
      by simp
    then show ?thesis by blast
  qed
qed

lemma resolved_calls:
  assumes "resolve E f name s = Returns pAttr s2" and "drain E s2 = Returns () s3"
  shows "calls (note_call c s3) = calls s @ [CallFinishUpdates, CallFindOrCreate name f, CallFinishUpdates, c]"
  using resolve_Returns_calls [OF assms(1)] drain_Returns(3) [OF assms(2)]
  by (simp add: note_call_def)

lemma SetAttrSize_calls:
  assumes valid: "file_call_valid cfg E tid f pszAttr s"
    and new: "0 < nNewSize"
    and res: "resolve E f (cstr pszAttr) s = Returns (Some a) s2"
    and dim: "IsDimension E a s2" "CanUserResize E a s2"
    and dr: "drain E s2 = Returns () s3"
  shows "\<exists>ops. calls (snd (RomeFileSetAttrSize cfg E tid (Some f) pszAttr nNewSize s)) =
            calls s @ [CallFinishUpdates, CallFindOrCreate (cstr pszAttr) f, CallFinishUpdates,
                       CallGetSize a] @ ops
          \<and> (\<forall>c \<in> set ops. \<exists>i b. c = CallResizeDim (Some a) i b)"
proof -
  define b where "b = (int32 (nNewSize - GetSize E a s3) < 0)"
  define k where "k = nat (int32 \<bar>int32 (nNewSize - GetSize E a s3)\<bar>)"
  define idx where "idx = (if b then int32 (GetSize E a s3 - 1) else GetSize E a s3)"
  define s4 where "s4 = note_call (CallGetSize a) s3"
  note u = SetAttrSize_resolved [OF valid new res dim dr, folded b_def k_def, folded idx_def s4_def]
  have pre: "calls s4 = calls s @ [CallFinishUpdates, CallFindOrCreate (cstr pszAttr) f,
      CallFinishUpdates, CallGetSize a]"
    unfolding s4_def by (rule resolved_calls [OF res dr])
  show ?thesis
  proof (cases "resize_loop E a b k idx s4")
    case (Returns x s5)
    from resize_loop_only_row_operations [of E a b k idx s4 x s5] Returns obtain ops where
      "calls s5 = calls s4 @ ops" "\<forall>c \<in> set ops. \<exists>i. c = CallResizeDim (Some a) i b"
      by blast
    with pre Returns show ?thesis unfolding u by auto
  next
    case (Throws s5)
    from resize_loop_only_row_operations [of E a b k idx s4 _ s5] Throws obtain ops where
      "calls s5 = calls s4 @ ops" "\<forall>c \<in> set ops. \<exists>i. c = CallResizeDim (Some a) i b"
      by blast
    with pre Throws show ?thesis unfolding u by (auto simp: SETERROR_calls)
  qed
qed

lemma GetAttrValueAux_calls:
  assumes valid: "file_call_valid cfg E tid f pszAttr s"
    and idx: "0 \<le> nIndex"
    and res: "resolve E f (cstr pszAttr) s = Returns (Some a) s2"
    and dr: "drain E s2 = Returns () s3"
    and units: "IsValidUnits E a pszUnit s3"
  shows "calls (snd (RomeFileGetAttrValueAux cfg E tid (Some f) pszAttr nIndex nVariant pszUnit s)) =
           calls s @ [CallFinishUpdates, CallFindOrCreate (cstr pszAttr) f, CallFinishUpdates,
                      CallAttrGetStr a nIndex]"
proof -
  note u = GetAttrValueAux_resolved [OF valid idx res dr]
  have pre: "calls s3 = calls s @ [CallFinishUpdates, CallFindOrCreate (cstr pszAttr) f, CallFinishUpdates]"
    using resolve_Returns_calls [OF res] drain_Returns(3) [OF dr] by simp
  show ?thesis
  proof (cases "invoke (CallAttrGetStr a nIndex)
      (AttrGetStr E a nIndex nVariant (if length pszUnit = 0 then ''#U_TEMPLATE'' else pszUnit)) s3")
    case (Returns v s4)
    from invoke_Returns_calls [OF Returns] pre Returns units show ?thesis
      unfolding u by simp
  next
    case (Throws s4)
    from invoke_Throws_calls [OF Throws] pre Throws units show ?thesis
      unfolding u by (simp add: SETERROR_calls)
  qed
qed


lemma SetAttrSize_Engine:
  assumes valid: "file_call_valid cfg E tid f pszAttr s"
    and new: "0 < nNewSize"
    and res: "resolve E f (cstr pszAttr) s = Returns (Some a) s2"
    and dim: "IsDimension E a s2" "CanUserResize E a s2"
    and dr: "drain E s2 = Returns () s3"
  shows "Engine (snd (RomeFileSetAttrSize cfg E tid (Some f) pszAttr nNewSize s)) =
           Engine (state_of (resize_rows E a (GetSize E a s3) nNewSize (note_call (CallGetSize a) s3)))"
  unfolding SetAttrSize_resolved_rows [OF valid new res dim dr]
  by (simp add: state_of_def SETERROR_Engine split: outcome.splits)

lemma GetAttrValueAux_reads_drained:
  assumes valid: "file_call_valid cfg E tid f pszAttr s"
    and idx: "0 \<le> nIndex"
    and res: "resolve E f (cstr pszAttr) s = Returns (Some a) s2"
    and dr: "drain E s2 = Returns () s3"
    and units: "IsValidUnits E a pszUnit s3"
    and get: "AttrGetStr E a nIndex nVariant (if length pszUnit = 0 then ''#U_TEMPLATE'' else pszUnit) s3
                = Returns v s4"
  shows "fst (RomeFileGetAttrValueAux cfg E tid (Some f) pszAttr nIndex nVariant pszUnit s) =
           Some (case v of None \<Rightarrow> ''NULL'' | Some x \<Rightarrow> x)"
proof -
  from get have "invoke (CallAttrGetStr a nIndex)
       (AttrGetStr E a nIndex nVariant (if length pszUnit = 0 then ''#U_TEMPLATE'' else pszUnit)) s3
       = Returns v (s4\<lparr>calls := calls s3 @ [CallAttrGetStr a nIndex]\<rparr>)"
    by (simp add: invoke_def)
  with units show ?thesis
    unfolding GetAttrValueAux_resolved [OF valid idx res dr] by simp
qed

text \<open>
  Claim C1, as the code has it. Every drain empties the update stack and leaves the
  auto-run state as it was. On the path where the attribute resolves, with \<open>s3\<close> the
  state the second drain leaves: \<^verbatim>\<open>RomeFileGetAttrDimSize\<close>, \<^verbatim>\<open>RomeFileGetAttrSize\<close>
  and \<^verbatim>\<open>RomeFileGetAttrSizeEx\<close> drain on entry and again immediately before they read
  the size, and the size they return is the one read in \<open>s3\<close>;
  \<^verbatim>\<open>RomeFileGetAttrValueAux\<close>, for an index \<open>\<ge> 0\<close> and a valid unit, drains on entry
  and again immediately before it reads the value, and the string it returns is the one
  \<^verbatim>\<open>AttrGetStr\<close> yields in \<open>s3\<close>. \<^verbatim>\<open>RomeFileSetAttrSize\<close> drains on entry and again
  immediately before it reads the old size in \<open>s3\<close> and applies the resize; every call it
  makes after that is a row operation, and the engine state it returns (update stack and
  auto-run state) is the one the row operations left: no drain follows the resize.
\<close>

theorem C1_engine_drain_discipline:
  assumes valid: "file_call_valid cfg E tid f pszAttr s"
    and res: "resolve E f (cstr pszAttr) s = Returns (Some a) s2"
    and dr: "drain E s2 = Returns () s3"
  shows "(\<forall>x y. (drain E x = Returns () y \<longrightarrow>
              update_stack (Engine y) = [] \<and> auto_update (Engine y) = auto_update (Engine x))
            \<and> (drain E x = Throws y \<longrightarrow> auto_update (Engine y) = auto_update (Engine x)))
       \<and> update_stack (Engine s3) = []
       \<and> fst (RomeFileGetAttrDimSize cfg E tid (Some f) pszAttr nDim s) = dimensions_GetSize E a nDim s3
       \<and> calls (snd (RomeFileGetAttrDimSize cfg E tid (Some f) pszAttr nDim s)) =
           calls s @ [CallFinishUpdates, CallFindOrCreate (cstr pszAttr) f, CallFinishUpdates,
                      CallDimGetSize a nDim]
       \<and> fst (RomeFileGetAttrSize cfg E tid (Some f) pszAttr s) =
           (if int16 (GetSize E a s3) = GetSize E a s3 then GetSize E a s3 else - 1)
       \<and> calls (snd (RomeFileGetAttrSize cfg E tid (Some f) pszAttr s)) =
           calls s @ [CallFinishUpdates, CallFindOrCreate (cstr pszAttr) f, CallFinishUpdates,
                      CallGetSize a]
       \<and> fst (RomeFileGetAttrSizeEx cfg E tid (Some f) pszAttr s) = GetSize E a s3
       \<and> calls (snd (RomeFileGetAttrSizeEx cfg E tid (Some f) pszAttr s)) =
           calls s @ [CallFinishUpdates, CallFindOrCreate (cstr pszAttr) f, CallFinishUpdates,
                      CallGetSize a]
       \<and> (0 \<le> nIndex \<and> IsValidUnits E a pszUnit s3 \<longrightarrow>
            calls (snd (RomeFileGetAttrValueAux cfg E tid (Some f) pszAttr nIndex nVariant pszUnit s)) =
              calls s @ [CallFinishUpdates, CallFindOrCreate (cstr pszAttr) f, CallFinishUpdates,
                         CallAttrGetStr a nIndex]
          \<and> (AttrGetStr E a nIndex nVariant (if length pszUnit = 0 then ''#U_TEMPLATE'' else pszUnit) s3
                = Returns v s4 \<longrightarrow>
              fst (RomeFileGetAttrValueAux cfg E tid (Some f) pszAttr nIndex nVariant pszUnit s) =
                Some (case v of None \<Rightarrow> ''NULL'' | Some x \<Rightarrow> x)))
       \<and> (0 < nNewSize \<and> IsDimension E a s2 \<and> CanUserResize E a s2 \<longrightarrow>
            (\<exists>ops. calls (snd (RomeFileSetAttrSize cfg E tid (Some f) pszAttr nNewSize s)) =
                      calls s @ [CallFinishUpdates, CallFindOrCreate (cstr pszAttr) f,
                                 CallFinishUpdates, CallGetSize a] @ ops
                  \<and> (\<forall>c \<in> set ops. \<exists>i b. c = CallResizeDim (Some a) i b))
          \<and> Engine (snd (RomeFileSetAttrSize cfg E tid (Some f) pszAttr nNewSize s)) =
              Engine (state_of (resize_rows E a (GetSize E a s3) nNewSize
                                  (note_call (CallGetSize a) s3))))"
proof -
  have drains: "\<forall>x y. (drain E x = Returns () y \<longrightarrow>
              update_stack (Engine y) = [] \<and> auto_update (Engine y) = auto_update (Engine x))
            \<and> (drain E x = Throws y \<longrightarrow> auto_update (Engine y) = auto_update (Engine x))"
    using drain_Returns(1,2) drain_Throws by blast
  have empty: "update_stack (Engine s3) = []"
    by (rule drain_Returns(1) [OF dr])
  have dim: "fst (RomeFileGetAttrDimSize cfg E tid (Some f) pszAttr nDim s) = dimensions_GetSize E a nDim s3"
    "calls (snd (RomeFileGetAttrDimSize cfg E tid (Some f) pszAttr nDim s)) =
           calls s @ [CallFinishUpdates, CallFindOrCreate (cstr pszAttr) f, CallFinishUpdates,
                      CallDimGetSize a nDim]"
    unfolding DimSize_resolved [OF valid res dr] by (simp_all add: resolved_calls [OF res dr])
  have short: "fst (RomeFileGetAttrSize cfg E tid (Some f) pszAttr s) =
           (if int16 (GetSize E a s3) = GetSize E a s3 then GetSize E a s3 else - 1)"
    "calls (snd (RomeFileGetAttrSize cfg E tid (Some f) pszAttr s)) =
           calls s @ [CallFinishUpdates, CallFindOrCreate (cstr pszAttr) f, CallFinishUpdates,
                      CallGetSize a]"
    unfolding Size_resolved [OF valid res dr]
    by (simp_all add: resolved_calls [OF res dr] SETERROR_calls RX_FAILURE_def)
  have ex: "fst (RomeFileGetAttrSizeEx cfg E tid (Some f) pszAttr s) = GetSize E a s3"
    "calls (snd (RomeFileGetAttrSizeEx cfg E tid (Some f) pszAttr s)) =
           calls s @ [CallFinishUpdates, CallFindOrCreate (cstr pszAttr) f, CallFinishUpdates,
                      CallGetSize a]"
    unfolding SizeEx_resolved [OF valid res dr] by (simp_all add: resolved_calls [OF res dr])
  have val: "0 \<le> nIndex \<and> IsValidUnits E a pszUnit s3 \<longrightarrow>
            calls (snd (RomeFileGetAttrValueAux cfg E tid (Some f) pszAttr nIndex nVariant pszUnit s)) =
              calls s @ [CallFinishUpdates, CallFindOrCreate (cstr pszAttr) f, CallFinishUpdates,
                         CallAttrGetStr a nIndex]
          \<and> (AttrGetStr E a nIndex nVariant (if length pszUnit = 0 then ''#U_TEMPLATE'' else pszUnit) s3
                = Returns v s4 \<longrightarrow>
              fst (RomeFileGetAttrValueAux cfg E tid (Some f) pszAttr nIndex nVariant pszUnit s) =
                Some (case v of None \<Rightarrow> ''NULL'' | Some x \<Rightarrow> x))"
    using GetAttrValueAux_calls [OF valid _ res dr] GetAttrValueAux_reads_drained [OF valid _ res dr]
    by blast
  have setsize: "0 < nNewSize \<and> IsDimension E a s2 \<and> CanUserResize E a s2 \<longrightarrow>
            (\<exists>ops. calls (snd (RomeFileSetAttrSize cfg E tid (Some f) pszAttr nNewSize s)) =
                      calls s @ [CallFinishUpdates, CallFindOrCreate (cstr pszAttr) f,
                                 CallFinishUpdates, CallGetSize a] @ ops
                  \<and> (\<forall>c \<in> set ops. \<exists>i b. c = CallResizeDim (Some a) i b))
          \<and> Engine (snd (RomeFileSetAttrSize cfg E tid (Some f) pszAttr nNewSize s)) =
              Engine (state_of (resize_rows E a (GetSize E a s3) nNewSize
                                  (note_call (CallGetSize a) s3)))"
    using SetAttrSize_calls [OF valid _ res _ _ dr] SetAttrSize_Engine [OF valid _ res _ _ dr]
    by blast
  from drains empty dim short ex val setsize show ?thesis by blast
qed

lemma sample_resize_rows_grow:
  "resize_rows sample_env 10 1 3 (note_call (CallGetSize 10) (sample_s3 1)) = Returns () sample_grown"
  by (simp add: resize_rows_def int32_def numeral_2_eq_2 and_then_def invoke_def note_call_def
      sample_env_def sample_s3_def sample_grown_def push_update_def)

theorem C1_engine_drain_discipline_witness:
  "file_call_valid sample_cfg sample_env 2 1 (Some ''LAYERS'') (sample_state 3)
   \<and> fst (RomeFileGetAttrSizeEx sample_cfg sample_env 2 (Some 1) (Some ''LAYERS'') (sample_state 3)) = 3
   \<and> fst (RomeFileGetAttrSize sample_cfg sample_env 2 (Some 1) (Some ''LAYERS'') (sample_state 3)) = 3
   \<and> calls (snd (RomeFileGetAttrSizeEx sample_cfg sample_env 2 (Some 1) (Some ''LAYERS'') (sample_state 3))) =
       [CallFinishUpdates, CallFindOrCreate ''LAYERS'' 1, CallFinishUpdates, CallGetSize 10]
   \<and> fst (RomeFileGetAttrValueAux sample_cfg sample_env 2 (Some 1) (Some ''LAYERS'') 0 0 []
            (sample_state 3)) = Some ''5''
   \<and> calls (snd (RomeFileGetAttrValueAux sample_cfg sample_env 2 (Some 1) (Some ''LAYERS'') 0 0 []
                   (sample_state 3))) =
       [CallFinishUpdates, CallFindOrCreate ''LAYERS'' 1, CallFinishUpdates, CallAttrGetStr 10 0]
   \<and> update_stack (Engine (snd (RomeFileSetAttrSize sample_cfg sample_env 2 (Some 1) (Some ''LAYERS'') 3
                                  (sample_state 1)))) = [2, 2]"
proof -
  have units: "IsValidUnits sample_env 10 [] (sample_s3 3)"
    by (simp add: sample_env_def)
  have get: "AttrGetStr sample_env 10 0 0 (if length ([]::string) = 0 then ''#U_TEMPLATE'' else [])
      (sample_s3 3) = Returns (Some ''5'') (sample_s3 3)"
    by (simp add: sample_env_def sample_s3_def)
  have fits: "int16 3 = 3" by (simp add: int16_def)
  have r: "fst (RomeFileGetAttrSizeEx sample_cfg sample_env 2 (Some 1) (Some ''LAYERS'') (sample_state 3)) = 3
   \<and> fst (RomeFileGetAttrSize sample_cfg sample_env 2 (Some 1) (Some ''LAYERS'') (sample_state 3)) = 3
   \<and> calls (snd (RomeFileGetAttrSizeEx sample_cfg sample_env 2 (Some 1) (Some ''LAYERS'') (sample_state 3))) =
       [CallFinishUpdates, CallFindOrCreate ''LAYERS'' 1, CallFinishUpdates, CallGetSize 10]
   \<and> fst (RomeFileGetAttrValueAux sample_cfg sample_env 2 (Some 1) (Some ''LAYERS'') 0 0 []
            (sample_state 3)) = Some ''5''
   \<and> calls (snd (RomeFileGetAttrValueAux sample_cfg sample_env 2 (Some 1) (Some ''LAYERS'') 0 0 []
                   (sample_state 3))) =
       [CallFinishUpdates, CallFindOrCreate ''LAYERS'' 1, CallFinishUpdates, CallAttrGetStr 10 0]"
    using C1_engine_drain_discipline [OF sample_valid [of 3] sample_resolve [of 3] sample_drain [of 3],
        where nIndex = 0 and nVariant = 0 and pszUnit = "[]" and v = "Some ''5''"
        and ?s4.0 = "sample_s3 3" and nDim = 0 and nNewSize = 0]
      units get
    by (simp add: sample_GetSize fits sample_state_def cstr_def)
  have e: "update_stack (Engine (snd (RomeFileSetAttrSize sample_cfg sample_env 2 (Some 1) (Some ''LAYERS'') 3
                                  (sample_state 1)))) = [2, 2]"
    using C1_engine_drain_discipline [OF sample_valid [of 1] sample_resolve [of 1] sample_drain [of 1],
        where nIndex = 0 and nVariant = 0 and pszUnit = "[]" and v = "Some ''5''"
        and ?s4.0 = "sample_s3 1" and nDim = 0 and nNewSize = 3]
      sample_dimension
    by (simp add: sample_GetSize sample_resize_rows_grow state_of_def sample_grown_def)
  from r e sample_valid [of 3] show ?thesis by blast
qed

text \<open>
  Claim C1 as stated fails: a size change from 1 to 3 ends with the second insertion.
  No drain follows; in this world each insertion schedules an update, and both are still
  on the stack when \<^verbatim>\<open>RomeFileSetAttrSize\<close> returns.
\<close>

theorem C1_no_drain_after_resize:
  "fst (RomeFileSetAttrSize sample_cfg sample_env 2 (Some 1) (Some ''LAYERS'') 3 (sample_state 1)) = 1
   \<and> calls (snd (RomeFileSetAttrSize sample_cfg sample_env 2 (Some 1) (Some ''LAYERS'') 3 (sample_state 1)))
       = [CallFinishUpdates, CallFindOrCreate ''LAYERS'' 1, CallFinishUpdates, CallGetSize 10,
          CallResizeDim (Some 10) 1 False, CallResizeDim (Some 10) 2 False]
   \<and> last (calls (snd (RomeFileSetAttrSize sample_cfg sample_env 2 (Some 1) (Some ''LAYERS'') 3
                         (sample_state 1)))) \<noteq> CallFinishUpdates
   \<and> update_stack (Engine (snd (RomeFileSetAttrSize sample_cfg sample_env 2 (Some 1) (Some ''LAYERS'') 3
                                  (sample_state 1)))) = [2, 2]"
  unfolding sample_grow by (simp add: sample_grown_def)

subsection \<open>Attributes that do not resolve\<close>

lemma resolve_locked_ReturnsD:
  assumes "resolve_locked E f name s = Returns pAttr s2"
  obtains s1 where "invoke CallFinishUpdates (FinishUpdates E) s = Returns () s1"
    and "with_CUpdateLock E (invoke (CallFindOrCreate name f) (FindOrCreate E name f)) s1 = Returns pAttr s2"
  using assms by (auto simp: resolve_locked_def drain_def and_then_def split: outcome.splits)

lemma GetAttrValueAux_unresolved:
  assumes "file_call_valid cfg E tid f pszAttr s"
    and "0 \<le> nIndex \<or> nIndex = - 1"
    and "resolve E f (cstr pszAttr) s = Returns None s2"
  shows "RomeFileGetAttrValueAux cfg E tid (Some f) pszAttr nIndex nVariant pszUnit s =
           (None, SETERROR cfg tid
              (case GetListing E (cstr pszAttr) of
                 None \<Rightarrow> ''RomeFileGetAttrValue: no Rusle2 parameter of that name.''
               | Some l \<Rightarrow>
                   if \<not> IsValidObject E l (GetObjTypeName E f)
                   then ''RomeFileGetAttrValue: Rusle2 parameter asked for in wrong object type.''
                   else ''RomeFileGetAttrValue: failed to create attr.'') s2)"
proof -
  from assms(3) obtain s1 where
    "invoke CallFinishUpdates (FinishUpdates E) s = Returns () s1"
    "invoke (CallFindOrCreate (cstr pszAttr) f) (FindOrCreate E (cstr pszAttr) f) s1 = Returns None s2"
    by (rule resolve_ReturnsD)
  with assms(1,2) show ?thesis
    unfolding RomeFileGetAttrValueAux_def
    by (cases "USE_ROMEAPI_REFCOUNT cfg"; cases "USE_ROMEAPI_THREADIdS cfg";
        cases "GetListing E (cstr pszAttr)")
       (simp_all add: file_call_valid_def and_then_Returns try_catch_Returns)
qed

lemma SetAttrValueAux_unresolved:
  assumes "file_call_valid cfg E tid f pszAttr s"
    and "pszValue \<noteq> None" and "0 \<le> nIndex"
    and "MAX_SETSTR_SIZE cfg \<le> 0 \<or> int (length (cstr pszValue)) \<le> MAX_SETSTR_SIZE cfg"
    and "resolve_locked E f (cstr pszAttr) s = Returns None s2"
  shows "RomeFileSetAttrValueAux cfg E tid (Some f) pszAttr pszValue nIndex nVariant pszUnit s =
           (- 1, SETERROR cfg tid
              (case GetListing E (cstr pszAttr) of
                 None \<Rightarrow> ''RomeFileSetAttrValue: no Rusle2 parameter of that name.''
               | Some l \<Rightarrow>
                   if \<not> IsValidObject E l (GetObjTypeName E f)
                   then ''RomeFileSetAttrValue: Rusle2 parameter asked for in wrong object type.''
                   else ''RomeFileSetAttrValue: failed to create attr.'') s2)"
proof -
  from assms(5) obtain s1 where
    "invoke CallFinishUpdates (FinishUpdates E) s = Returns () s1"
    "with_CUpdateLock E (invoke (CallFindOrCreate (cstr pszAttr) f) (FindOrCreate E (cstr pszAttr) f)) s1
       = Returns None s2"
    by (rule resolve_locked_ReturnsD)
  moreover from assms(2) obtain v where "pszValue = Some v" by blast
  ultimately show ?thesis
    using assms(1,3,4)
    unfolding RomeFileSetAttrValueAux_def
    by (cases "USE_ROMEAPI_REFCOUNT cfg"; cases "USE_ROMEAPI_THREADIdS cfg";
        cases "GetListing E (cstr pszAttr)")
       (simp_all add: file_call_valid_def and_then_Returns try_catch_Returns RX_FAILURE_def)
qed

lemma last_error_SETERROR_R:
  "last_error tid (SETERROR cfg tid (CHR ''R'' # msg) s) = CHR ''R'' # msg"
  by (rule last_error_SETERROR) simp

text \<open>
  Claim C5. When the attribute does not resolve, \<^verbatim>\<open>RomeFileGetAttrValueAux\<close> returns
  \<^verbatim>\<open>NULL\<close> and \<^verbatim>\<open>RomeFileSetAttrValueAux\<close> returns -1, and the error text tells the
  cases apart: a name that is not in the catalog gives the not-found text, a name whose
  listing does not allow the object type of the file gives the wrong-object-type text
  (and any other failure to create the attribute gives a generic text).
\<close>

theorem C5_catalog_gating:
  assumes valid: "file_call_valid cfg E tid f pszAttr s"
  shows "((0 \<le> nIndex \<or> nIndex = - 1) \<and> resolve E f (cstr pszAttr) s = Returns None s2 \<longrightarrow>
            fst (RomeFileGetAttrValueAux cfg E tid (Some f) pszAttr nIndex nVariant pszUnit s) = None
          \<and> last_error tid (snd (RomeFileGetAttrValueAux cfg E tid (Some f) pszAttr nIndex nVariant pszUnit s)) =
              (case GetListing E (cstr pszAttr) of
                 None \<Rightarrow> ''RomeFileGetAttrValue: no Rusle2 parameter of that name.''
               | Some l \<Rightarrow>
                   if \<not> IsValidObject E l (GetObjTypeName E f)
                   then ''RomeFileGetAttrValue: Rusle2 parameter asked for in wrong object type.''
                   else ''RomeFileGetAttrValue: failed to create attr.''))
       \<and> (pszValue \<noteq> None \<and> 0 \<le> nIndex'
            \<and> (MAX_SETSTR_SIZE cfg \<le> 0 \<or> int (length (cstr pszValue)) \<le> MAX_SETSTR_SIZE cfg)
            \<and> resolve_locked E f (cstr pszAttr) s = Returns None s2' \<longrightarrow>
            fst (RomeFileSetAttrValueAux cfg E tid (Some f) pszAttr pszValue nIndex' nVariant pszUnit s) = - 1
          \<and> last_error tid
              (snd (RomeFileSetAttrValueAux cfg E tid (Some f) pszAttr pszValue nIndex' nVariant pszUnit s)) =
              (case GetListing E (cstr pszAttr) of
                 None \<Rightarrow> ''RomeFileSetAttrValue: no Rusle2 parameter of that name.''
               | Some l \<Rightarrow>
                   if \<not> IsValidObject E l (GetObjTypeName E f)
                   then ''RomeFileSetAttrValue: Rusle2 parameter asked for in wrong object type.''
                   else ''RomeFileSetAttrValue: failed to create attr.''))"
proof (intro conjI impI)
  assume h: "(0 \<le> nIndex \<or> nIndex = - 1) \<and> resolve E f (cstr pszAttr) s = Returns None s2"
  then have i: "0 \<le> nIndex \<or> nIndex = - 1" and r: "resolve E f (cstr pszAttr) s = Returns None s2"
    by simp_all
  note u = GetAttrValueAux_unresolved [OF valid i r]
  show "fst (RomeFileGetAttrValueAux cfg E tid (Some f) pszAttr nIndex nVariant pszUnit s) = None"
    unfolding u by simp
  show "last_error tid (snd (RomeFileGetAttrValueAux cfg E tid (Some f) pszAttr nIndex nVariant pszUnit s)) =
              (case GetListing E (cstr pszAttr) of
                 None \<Rightarrow> ''RomeFileGetAttrValue: no Rusle2 parameter of that name.''
               | Some l \<Rightarrow>
                   if \<not> IsValidObject E l (GetObjTypeName E f)
                   then ''RomeFileGetAttrValue: Rusle2 parameter asked for in wrong object type.''
                   else ''RomeFileGetAttrValue: failed to create attr.'')"
    unfolding u by (simp add: last_error_SETERROR_R split: option.splits)
next
  assume h: "pszValue \<noteq> None \<and> 0 \<le> nIndex'
            \<and> (MAX_SETSTR_SIZE cfg \<le> 0 \<or> int (length (cstr pszValue)) \<le> MAX_SETSTR_SIZE cfg)
            \<and> resolve_locked E f (cstr pszAttr) s = Returns None s2'"
  then have v: "pszValue \<noteq> None" and i: "0 \<le> nIndex'"
    and m: "MAX_SETSTR_SIZE cfg \<le> 0 \<or> int (length (cstr pszValue)) \<le> MAX_SETSTR_SIZE cfg"
    and r: "resolve_locked E f (cstr pszAttr) s = Returns None s2'"
    by simp_all
  note u = SetAttrValueAux_unresolved [OF valid v i m r]
  show "fst (RomeFileSetAttrValueAux cfg E tid (Some f) pszAttr pszValue nIndex' nVariant pszUnit s) = - 1"
    unfolding u by simp
  show "last_error tid
              (snd (RomeFileSetAttrValueAux cfg E tid (Some f) pszAttr pszValue nIndex' nVariant pszUnit s)) =
              (case GetListing E (cstr pszAttr) of
                 None \<Rightarrow> ''RomeFileSetAttrValue: no Rusle2 parameter of that name.''
               | Some l \<Rightarrow>
                   if \<not> IsValidObject E l (GetObjTypeName E f)
                   then ''RomeFileSetAttrValue: Rusle2 parameter asked for in wrong object type.''
                   else ''RomeFileSetAttrValue: failed to create attr.'')"
    unfolding u by (simp add: last_error_SETERROR_R split: option.splits)
qed

lemma sample_valid_name:
  "name \<noteq> [] \<Longrightarrow> file_call_valid sample_cfg sample_env 2 1 (Some name) (sample_state n)"
  by (simp add: file_call_valid_def sample_cfg_def sample_env_def sample_state_def strempty_def
      HasFlag_def)

lemma sample_unresolved:
  "name \<noteq> ''LAYERS'' \<Longrightarrow>
   resolve sample_env 1 (cstr (Some name)) (sample_state n) =
     Returns None (state_of (resolve sample_env 1 (cstr (Some name)) (sample_state n)))"
  by (simp add: resolve_def drain_def invoke_def FinishUpdates_def and_then_def sample_env_def
      cstr_def state_of_def)

lemma sample_unresolved_locked:
  "name \<noteq> ''LAYERS'' \<Longrightarrow>
   resolve_locked sample_env 1 (cstr (Some name)) (sample_state n) =
     Returns None (state_of (resolve_locked sample_env 1 (cstr (Some name)) (sample_state n)))"
  by (simp add: resolve_locked_def with_CUpdateLock_def drain_def invoke_def FinishUpdates_def
      and_then_def sample_env_def cstr_def state_of_def note_call_def)

theorem C5_catalog_gating_witness:
  "fst (RomeFileGetAttrValueAux sample_cfg sample_env 2 (Some 1) (Some ''WIND'') 0 0 [] (sample_state 1)) = None
   \<and> last_error 2 (snd (RomeFileGetAttrValueAux sample_cfg sample_env 2 (Some 1) (Some ''WIND'') 0 0 []
                          (sample_state 1)))
       = ''RomeFileGetAttrValue: no Rusle2 parameter of that name.''
   \<and> fst (RomeFileSetAttrValueAux sample_cfg sample_env 2 (Some 1) (Some ''RAIN'') (Some ''7'') 0 0 []
            (sample_state 1)) = - 1
   \<and> last_error 2 (snd (RomeFileSetAttrValueAux sample_cfg sample_env 2 (Some 1) (Some ''RAIN'') (Some ''7'')
                          0 0 [] (sample_state 1)))
       = ''RomeFileSetAttrValue: Rusle2 parameter asked for in wrong object type.''"
proof -
  have w: "''WIND'' \<noteq> []" "''WIND'' \<noteq> ''LAYERS''" and r: "''RAIN'' \<noteq> []" "''RAIN'' \<noteq> ''LAYERS''"
    by simp_all
  have g: "GetListing sample_env (cstr (Some ''WIND'')) = None"
    "GetListing sample_env (cstr (Some ''RAIN'')) = Some 1"
    "\<not> IsValidObject sample_env 1 (GetObjTypeName sample_env 1)"
    by (simp_all add: sample_env_def cstr_def)
  have m: "MAX_SETSTR_SIZE sample_cfg = 1024" by (simp add: sample_cfg_def)
  have gl: "GetListing sample_env ''RAIN'' = Some 1"
    and io: "\<And>l obj. IsValidObject sample_env l obj = (l = 0 \<and> obj = ''SOIL'')"
    by (simp_all add: sample_env_def)
  from C5_catalog_gating [OF sample_valid_name [OF w(1), of 1], where nIndex = 0 and nVariant = 0
      and pszUnit = "[]"
      and ?s2.0 = "state_of (resolve sample_env 1 (cstr (Some ''WIND'')) (sample_state 1))"]
    sample_unresolved [OF w(2), of 1]
  have a: "fst (RomeFileGetAttrValueAux sample_cfg sample_env 2 (Some 1) (Some ''WIND'') 0 0 [] (sample_state 1)) = None
   \<and> last_error 2 (snd (RomeFileGetAttrValueAux sample_cfg sample_env 2 (Some 1) (Some ''WIND'') 0 0 []
                          (sample_state 1)))
       = ''RomeFileGetAttrValue: no Rusle2 parameter of that name.''"
    by (simp add: g)
  from C5_catalog_gating [OF sample_valid_name [OF r(1), of 1], where nIndex' = 0 and nVariant = 0
      and pszUnit = "[]" and pszValue = "Some ''7''"
      and s2' = "state_of (resolve_locked sample_env 1 (cstr (Some ''RAIN'')) (sample_state 1))"]
    sample_unresolved_locked [OF r(2), of 1]
  have b: "fst (RomeFileSetAttrValueAux sample_cfg sample_env 2 (Some 1) (Some ''RAIN'') (Some ''7'') 0 0 []
            (sample_state 1)) = - 1
   \<and> last_error 2 (snd (RomeFileSetAttrValueAux sample_cfg sample_env 2 (Some 1) (Some ''RAIN'') (Some ''7'')
                          0 0 [] (sample_state 1)))
       = ''RomeFileSetAttrValue: Rusle2 parameter asked for in wrong object type.''"
    by (simp add: gl io m cstr_def)
  from a b show ?thesis by simp
qed

subsection \<open>The index of a value read\<close>

lemma GetAttrValueAux_bad_index:
  assumes "nIndex < - 1"
  shows "fst (RomeFileGetAttrValueAux cfg E tid pFile pszAttr nIndex nVariant pszUnit s) = None"
    and "last_error tid (snd (RomeFileGetAttrValueAux cfg E tid pFile pszAttr nIndex nVariant pszUnit s))
           \<in> {''RomeFileGetAttrValue: NULL file pointer.'', ''RomeFileGetAttrValue: empty attr name.'',
              ''RomeFileGetAttrValue: invalid index.''}"
  using assms unfolding RomeFileGetAttrValueAux_def
  by (cases pFile; simp add: last_error_SETERROR_R)+

lemma GetAttrValueAux_current_index:
  assumes "file_call_valid cfg E tid f pszAttr s"
    and "resolve E f (cstr pszAttr) s = Returns (Some a) s2"
  shows "RomeFileGetAttrValueAux cfg E tid (Some f) pszAttr (- 1) nVariant pszUnit s =
           (Some (Int2Str E (AttrGetIndex E a 0 s2)),
            RomeThreadSetNamedString tid ''RomeFileGetAttrValue'' (Int2Str E (AttrGetIndex E a 0 s2))
              (note_call (CallAttrGetIndex a) s2))"
proof -
  from assms(2) obtain s1 where
    "invoke CallFinishUpdates (FinishUpdates E) s = Returns () s1"
    "invoke (CallFindOrCreate (cstr pszAttr) f) (FindOrCreate E (cstr pszAttr) f) s1 = Returns (Some a) s2"
    by (rule resolve_ReturnsD)
  with assms(1) show ?thesis
    unfolding RomeFileGetAttrValueAux_def
    by (cases "USE_ROMEAPI_REFCOUNT cfg"; cases "USE_ROMEAPI_THREADIdS cfg")
       (simp_all add: file_call_valid_def and_then_Returns try_catch_Returns Let_def)
qed

text \<open>
  What the facade does with an index \<open>\<ge> 0\<close>, whatever the size of the attribute: when
  \<^verbatim>\<open>AttrGetStr\<close> throws, the result is \<^verbatim>\<open>NULL\<close> with an error text; when it reports
  a null string, the result is the text \<open>NULL\<close> and no error text is set; otherwise the
  result is the string it returned.
\<close>

lemma GetAttrValueAux_value:
  assumes "file_call_valid cfg E tid f pszAttr s"
    and "0 \<le> nIndex"
    and "resolve E f (cstr pszAttr) s = Returns (Some a) s2"
    and "drain E s2 = Returns () s3"
    and "IsValidUnits E a pszUnit s3"
  shows "invoke (CallAttrGetStr a nIndex)
           (AttrGetStr E a nIndex nVariant (if length pszUnit = 0 then ''#U_TEMPLATE'' else pszUnit)) s3
           = Throws s4 \<Longrightarrow>
         fst (RomeFileGetAttrValueAux cfg E tid (Some f) pszAttr nIndex nVariant pszUnit s) = None
         \<and> last_error tid (snd (RomeFileGetAttrValueAux cfg E tid (Some f) pszAttr nIndex nVariant pszUnit s))
             \<noteq> []"
    and "invoke (CallAttrGetStr a nIndex)
           (AttrGetStr E a nIndex nVariant (if length pszUnit = 0 then ''#U_TEMPLATE'' else pszUnit)) s3
           = Returns None s4 \<Longrightarrow>
         RomeFileGetAttrValueAux cfg E tid (Some f) pszAttr nIndex nVariant pszUnit s = (Some ''NULL'', s4)"
    and "invoke (CallAttrGetStr a nIndex)
           (AttrGetStr E a nIndex nVariant (if length pszUnit = 0 then ''#U_TEMPLATE'' else pszUnit)) s3
           = Returns (Some v) s4 \<Longrightarrow>
         RomeFileGetAttrValueAux cfg E tid (Some f) pszAttr nIndex nVariant pszUnit s = (Some v, s4)"
  unfolding GetAttrValueAux_resolved [OF assms(1-4)] using assms(5)
  by (simp_all add: exception_text_def last_error_SETERROR_R)

lemma GetAttrValueAux_out_of_range:
  assumes contract: "AttrGetStr_faults_out_of_range E"
    and valid: "file_call_valid cfg E tid f pszAttr s"
    and idx: "0 \<le> nIndex"
    and res: "resolve E f (cstr pszAttr) s = Returns (Some a) s2"
    and dr: "drain E s2 = Returns () s3"
    and out: "GetSize E a s3 \<le> nIndex"
  shows "fst (RomeFileGetAttrValueAux cfg E tid (Some f) pszAttr nIndex nVariant pszUnit s) = None"
    and "IsValidUnits E a pszUnit s3 \<Longrightarrow>
         last_error tid (snd (RomeFileGetAttrValueAux cfg E tid (Some f) pszAttr nIndex nVariant pszUnit s)) =
           exception_text E ''RomeFileGetAttrValue'' (Some f) pszAttr @ '', Index = '' @
           FormatInt E nIndex @ ''.''"
proof -
  from contract out obtain s' where
    "AttrGetStr E a nIndex nVariant (if length pszUnit = 0 then ''#U_TEMPLATE'' else pszUnit) s3 = Throws s'"
    unfolding AttrGetStr_faults_out_of_range_def by (meson not_less)
  then have t: "invoke (CallAttrGetStr a nIndex)
      (AttrGetStr E a nIndex nVariant (if length pszUnit = 0 then ''#U_TEMPLATE'' else pszUnit)) s3 =
      Throws (s'\<lparr>calls := calls s3 @ [CallAttrGetStr a nIndex]\<rparr>)"
    by (simp add: invoke_def)
  show "fst (RomeFileGetAttrValueAux cfg E tid (Some f) pszAttr nIndex nVariant pszUnit s) = None"
    unfolding GetAttrValueAux_resolved [OF valid idx res dr] using t by simp
  show "last_error tid (snd (RomeFileGetAttrValueAux cfg E tid (Some f) pszAttr nIndex nVariant pszUnit s)) =
           exception_text E ''RomeFileGetAttrValue'' (Some f) pszAttr @ '', Index = '' @
           FormatInt E nIndex @ ''.''"
    if "IsValidUnits E a pszUnit s3"
    unfolding GetAttrValueAux_resolved [OF valid idx res dr] using t that
    by (simp add: exception_text_def last_error_SETERROR_R)
qed

text \<open>
  Claim C4. An index below -1 makes \<^verbatim>\<open>RomeFileGetAttrValueAux\<close> return \<^verbatim>\<open>NULL\<close>
  with an error text, whatever its other arguments. On an attribute that resolves, index
  -1 returns the current index of the attribute as a string. With a value accessor that
  faults on an index outside the value store, an index \<open>\<ge> 0\<close> that is not below the
  size returns \<^verbatim>\<open>NULL\<close>, and (the unit being valid) the error text is that of the
  exception handler: the fault does not leave the function.
\<close>

theorem C4_get_value_index_contract:
  assumes contract: "AttrGetStr_faults_out_of_range E"
  shows "(nIndex < - 1 \<longrightarrow>
            fst (RomeFileGetAttrValueAux cfg E tid pFile pszAttr' nIndex nVariant pszUnit s') = None
          \<and> last_error tid (snd (RomeFileGetAttrValueAux cfg E tid pFile pszAttr' nIndex nVariant pszUnit s'))
              \<in> {''RomeFileGetAttrValue: NULL file pointer.'', ''RomeFileGetAttrValue: empty attr name.'',
                 ''RomeFileGetAttrValue: invalid index.''})
       \<and> (file_call_valid cfg E tid f pszAttr s \<and> resolve E f (cstr pszAttr) s = Returns (Some a) s2 \<longrightarrow>
            fst (RomeFileGetAttrValueAux cfg E tid (Some f) pszAttr (- 1) nVariant pszUnit s) =
              Some (Int2Str E (AttrGetIndex E a 0 s2))
          \<and> (0 \<le> nIndex' \<and> drain E s2 = Returns () s3 \<and> GetSize E a s3 \<le> nIndex' \<longrightarrow>
               fst (RomeFileGetAttrValueAux cfg E tid (Some f) pszAttr nIndex' nVariant pszUnit s) = None
             \<and> (IsValidUnits E a pszUnit s3 \<longrightarrow>
                  last_error tid
                    (snd (RomeFileGetAttrValueAux cfg E tid (Some f) pszAttr nIndex' nVariant pszUnit s)) =
                    exception_text E ''RomeFileGetAttrValue'' (Some f) pszAttr @ '', Index = '' @
                    FormatInt E nIndex' @ ''.'')))"
proof -
  have bad: "nIndex < - 1 \<longrightarrow>
            fst (RomeFileGetAttrValueAux cfg E tid pFile pszAttr' nIndex nVariant pszUnit s') = None
          \<and> last_error tid (snd (RomeFileGetAttrValueAux cfg E tid pFile pszAttr' nIndex nVariant pszUnit s'))
              \<in> {''RomeFileGetAttrValue: NULL file pointer.'', ''RomeFileGetAttrValue: empty attr name.'',
                 ''RomeFileGetAttrValue: invalid index.''}"
    using GetAttrValueAux_bad_index [where nIndex = nIndex and cfg = cfg and E = E and tid = tid
        and pFile = pFile and pszAttr = pszAttr' and nVariant = nVariant and pszUnit = pszUnit and s = s']
    by blast
  have cur: "fst (RomeFileGetAttrValueAux cfg E tid (Some f) pszAttr (- 1) nVariant pszUnit s) =
              Some (Int2Str E (AttrGetIndex E a 0 s2))"
    if "file_call_valid cfg E tid f pszAttr s" "resolve E f (cstr pszAttr) s = Returns (Some a) s2"
    unfolding GetAttrValueAux_current_index [OF that] by simp
  have out: "fst (RomeFileGetAttrValueAux cfg E tid (Some f) pszAttr nIndex' nVariant pszUnit s) = None
             \<and> (IsValidUnits E a pszUnit s3 \<longrightarrow>
                  last_error tid
                    (snd (RomeFileGetAttrValueAux cfg E tid (Some f) pszAttr nIndex' nVariant pszUnit s)) =
                    exception_text E ''RomeFileGetAttrValue'' (Some f) pszAttr @ '', Index = '' @
                    FormatInt E nIndex' @ ''.'')"
    if "file_call_valid cfg E tid f pszAttr s" "resolve E f (cstr pszAttr) s = Returns (Some a) s2"
      "0 \<le> nIndex'" "drain E s2 = Returns () s3" "GetSize E a s3 \<le> nIndex'"
    using GetAttrValueAux_out_of_range [OF contract that(1,3,2,4,5)] by blast
  from bad cur out show ?thesis by blast
qed

lemma sample_faults_out_of_range: "AttrGetStr_faults_out_of_range sample_env"
  by (simp add: AttrGetStr_faults_out_of_range_def sample_env_def)

theorem C4_get_value_index_contract_witness:
  "AttrGetStr_faults_out_of_range sample_env
   \<and> fst (RomeFileGetAttrValueAux sample_cfg sample_env 2 (Some 1) (Some ''LAYERS'') (- 2) 0 ''#U_TEMPLATE''
            (sample_state 1)) = None
   \<and> last_error 2 (snd (RomeFileGetAttrValueAux sample_cfg sample_env 2 (Some 1) (Some ''LAYERS'') (- 2) 0
                          ''#U_TEMPLATE'' (sample_state 1)))
       = ''RomeFileGetAttrValue: invalid index.''
   \<and> fst (RomeFileGetAttrValueAux sample_cfg sample_env 2 (Some 1) (Some ''LAYERS'') (- 1) 0 ''#U_TEMPLATE''
            (sample_state 1)) = Some ''0''
   \<and> fst (RomeFileGetAttrValueAux sample_cfg sample_env 2 (Some 1) (Some ''LAYERS'') 5 0 ''#U_TEMPLATE''
            (sample_state 1)) = None
   \<and> last_error 2 (snd (RomeFileGetAttrValueAux sample_cfg sample_env 2 (Some 1) (Some ''LAYERS'') 5 0
                          ''#U_TEMPLATE'' (sample_state 1)))
       = ''RomeFileGetAttrValue: exception for File = '' @ [CHR 0x27] @ ''0x00000001'' @ [CHR 0x27] @
         '', Attr = '' @ [CHR 0x27] @ ''LAYERS'' @ [CHR 0x27] @ '', Index = n.''"
proof -
  have units: "IsValidUnits sample_env 10 ''#U_TEMPLATE'' (sample_s3 1)"
    by (simp add: sample_env_def)
  have direct: "last_error 2 (snd (RomeFileGetAttrValueAux sample_cfg sample_env 2 (Some 1) (Some ''LAYERS'')
        (- 2) 0 ''#U_TEMPLATE'' (sample_state 1))) = ''RomeFileGetAttrValue: invalid index.''"
    by (simp add: RomeFileGetAttrValueAux_def strempty_def last_error_SETERROR_R)
  have ix: "Int2Str sample_env (AttrGetIndex sample_env 10 0 (sample_s2 1)) = ''0''"
    and fmt: "\<And>n. FormatInt sample_env n = ''n''" "\<And>p. FormatPtr sample_env p = ''00000001''"
    by (simp_all add: sample_env_def)
  have "fst (RomeFileGetAttrValueAux sample_cfg sample_env 2 (Some 1) (Some ''LAYERS'') (- 2) 0 ''#U_TEMPLATE''
            (sample_state 1)) = None
   \<and> fst (RomeFileGetAttrValueAux sample_cfg sample_env 2 (Some 1) (Some ''LAYERS'') (- 1) 0 ''#U_TEMPLATE''
            (sample_state 1)) = Some ''0''
   \<and> fst (RomeFileGetAttrValueAux sample_cfg sample_env 2 (Some 1) (Some ''LAYERS'') 5 0 ''#U_TEMPLATE''
            (sample_state 1)) = None
   \<and> last_error 2 (snd (RomeFileGetAttrValueAux sample_cfg sample_env 2 (Some 1) (Some ''LAYERS'') 5 0
                          ''#U_TEMPLATE'' (sample_state 1)))
       = ''RomeFileGetAttrValue: exception for File = '' @ [CHR 0x27] @ ''0x00000001'' @ [CHR 0x27] @
         '', Attr = '' @ [CHR 0x27] @ ''LAYERS'' @ [CHR 0x27] @ '', Index = n.''"
    using C4_get_value_index_contract [OF sample_faults_out_of_range,
        where nIndex = "- 2" and cfg = sample_cfg and tid = 2 and pFile = "Some 1"
        and pszAttr' = "Some ''LAYERS''" and nVariant = 0 and pszUnit = "''#U_TEMPLATE''"
        and s' = "sample_state 1" and f = 1 and pszAttr = "Some ''LAYERS''" and s = "sample_state 1"
        and a = 10 and ?s2.0 = "sample_s2 1" and nIndex' = 5 and ?s3.0 = "sample_s3 1"]
      sample_valid [of 1] sample_resolve [of 1] sample_drain [of 1] units
    by (simp add: sample_GetSize ix fmt exception_text_def cstr_def)
  with sample_faults_out_of_range direct show ?thesis by blast
qed

subsection \<open>Session lifecycle\<close>

lemma SETERROR_flags: "m_flags (SETERROR cfg tid msg s) = m_flags s"
  by (simp add: SETERROR_def SetLastError_flags)

lemma RomeInit_closed:
  assumes "HasFlag DLLSTATE_CLOSED s"
  shows "fst (RomeInit cfg SE tid pszArgs s) = None"
    and "HasFlag DLLSTATE_CLOSED (snd (RomeInit cfg SE tid pszArgs s))"
  using assms by (simp_all add: RomeInit_def HasFlag_def SETERROR_flags)

lemma RomeInit_calls_closed:
  assumes "HasFlag DLLSTATE_CLOSED s"
  shows "(\<forall>r \<in> set (fst (RomeInit_calls cfg SE cs s)). r = None)
         \<and> HasFlag DLLSTATE_CLOSED (snd (RomeInit_calls cfg SE cs s))"
  using assms
proof (induction cs arbitrary: s)
  case Nil
  then show ?case by simp
next
  case (Cons c cs)
  obtain tid pszArgs where c: "c = (tid, pszArgs)" by (cases c)
  define s1 where "s1 = snd (RomeInit cfg SE tid pszArgs s)"
  have r: "RomeInit cfg SE tid pszArgs s = (None, s1)"
    using RomeInit_closed(1) [OF Cons.prems, of cfg SE tid pszArgs]
    by (simp add: s1_def prod_eq_iff)
  have "HasFlag DLLSTATE_CLOSED s1"
    unfolding s1_def by (rule RomeInit_closed(2) [OF Cons.prems])
  from Cons.IH [OF this] show ?case
    by (simp add: c r split_def Let_def)
qed

text \<open>
  Claim C7. While the session is open and initialised, \<^verbatim>\<open>RomeInit\<close> returns the
  singleton and leaves the session as it is, whatever its argument string. Once the
  closed flag is set, as \<^verbatim>\<open>RomeExit\<close> leaves it, every call in any sequence of
  \<^verbatim>\<open>RomeInit\<close> calls returns \<^verbatim>\<open>NULL\<close>, and the session stays closed.
\<close>

theorem C7_session_lifecycle:
  "(\<not> HasFlag DLLSTATE_CLOSED s \<and> HasFlag DLLSTATE_INITROME s \<longrightarrow>
      RomeInit cfg SE tid pszArgs s = (Some App, s))
   \<and> (HasFlag DLLSTATE_CLOSED s \<longrightarrow>
        fst (RomeInit cfg SE tid pszArgs s) = None
      \<and> (\<forall>r \<in> set (fst (RomeInit_calls cfg SE cs s)). r = None)
      \<and> HasFlag DLLSTATE_CLOSED (snd (RomeInit_calls cfg SE cs s)))"
  using RomeInit_closed(1) [of s cfg SE tid pszArgs] RomeInit_calls_closed [of s cfg SE cs]
  by (simp add: RomeInit_def)

lemma sample_RomeInit:
  "RomeInit threads_cfg sample_session 1 None fresh_state = (Some App, sample_after_init)"
  by (simp add: RomeInit_def HasFlag_def fresh_state_def sample_session_def threads_cfg_def
      try_catch_def cstr_def sample_after_init_def)

lemma sample_RomeExit:
  "RomeExit threads_cfg sample_session 2 (Some App) sample_after_init =
     (True, sample_after_init\<lparr>m_flags := {DLLSTATE_CLOSED, DLLSTATE_INITROME}\<rparr>)"
  by (simp add: RomeExit_def HasFlag_def sample_session_def try_catch_def sample_after_init_def)

theorem C7_session_lifecycle_witness:
  "RomeInit threads_cfg sample_session 1 None fresh_state = (Some App, sample_after_init)
   \<and> RomeInit threads_cfg sample_session 2 (Some ''/UnitSystem=US'') sample_after_init
       = (Some App, sample_after_init)
   \<and> fst (RomeExit threads_cfg sample_session 2 (Some App) sample_after_init) = True
   \<and> fst (RomeInit threads_cfg sample_session 1 None
            (snd (RomeExit threads_cfg sample_session 2 (Some App) sample_after_init))) = None
   \<and> fst (RomeInit_calls threads_cfg sample_session [(1, None), (2, Some ''x'')]
            (snd (RomeExit threads_cfg sample_session 2 (Some App) sample_after_init))) = [None, None]"
proof -
  define closed where "closed = snd (RomeExit threads_cfg sample_session 2 (Some App) sample_after_init)"
  have o: "\<not> HasFlag DLLSTATE_CLOSED sample_after_init \<and> HasFlag DLLSTATE_INITROME sample_after_init"
    by (simp add: HasFlag_def sample_after_init_def)
  have c: "HasFlag DLLSTATE_CLOSED closed"
    unfolding closed_def sample_RomeExit by (simp add: HasFlag_def)
  have a: "RomeInit threads_cfg sample_session 2 (Some ''/UnitSystem=US'') sample_after_init
       = (Some App, sample_after_init)"
    using C7_session_lifecycle [of sample_after_init threads_cfg sample_session 2
        "Some ''/UnitSystem=US''" "[]"] o
    by simp
  have b: "fst (RomeInit threads_cfg sample_session 1 None closed) = None
      \<and> (\<forall>r \<in> set (fst (RomeInit_calls threads_cfg sample_session [(1, None), (2, Some ''x'')] closed)).
            r = None)"
    using C7_session_lifecycle [of closed threads_cfg sample_session 1 None
        "[(1, None), (2, Some ''x'')]"] c
    by simp
  have l: "length (fst (RomeInit_calls threads_cfg sample_session [(1, None), (2, Some ''x'')] closed)) = 2"
    by (simp add: split_def Let_def)
  have e: "fst (RomeInit_calls threads_cfg sample_session [(1, None), (2, Some ''x'')] closed) = [None, None]"
    using b l by (simp add: split_def Let_def)
  have x: "fst (RomeExit threads_cfg sample_session 2 (Some App) sample_after_init) = True"
    unfolding sample_RomeExit by simp
  from sample_RomeInit a b e x show ?thesis
    unfolding closed_def by simp
qed


subsection \<open>The thread check\<close>

text \<open>
  With the thread check compiled in, a call from the thread that \<^verbatim>\<open>RomeInit\<close> stored
  never gets past validation.
\<close>

lemma same_thread_rejected:
  assumes "USE_ROMEAPI_THREADIdS cfg" and "m_nThreadId s = tid"
  shows "fst (RomeFileSetAttrValueAux cfg E tid pFile pszAttr pszValue nIndex nVariant pszUnit s) = - 1"
    and "fst (RomeFileSetAttrSize cfg E tid pFile pszAttr nNewSize s) = - 1"
    and "fst (RomeFileGetAttrValueAux cfg E tid pFile pszAttr nIndex nVariant pszUnit s) = None"
    and "fst (RomeFileGetAttrSizeEx cfg E tid pFile pszAttr s) = - 1"
  using assms
  unfolding RomeFileSetAttrValueAux_def RomeFileSetAttrSize_def RomeFileGetAttrValueAux_def
    RomeFileGetAttrSizeEx_def
  by (cases pFile; simp add: RX_FAILURE_def)+

lemma strieq_7: "\<not> strieq ''7'' ''#INSERT''" "\<not> strieq ''7'' ''#DELETE''"
  by (simp_all add: strieq_def)

lemma sample_set_value_other_thread:
  "fst (RomeFileSetAttrValueAux threads_cfg sample_env 2 (Some 1) (Some ''LAYERS'') (Some ''7'') 0 0
          ''#U_TEMPLATE'' sample_after_init) = 1"
  by (simp add: RomeFileSetAttrValueAux_def threads_cfg_def sample_after_init_def strempty_def
      cstr_def HasFlag_def sample_env_def and_then_def try_catch_def invoke_def FinishUpdates_def
      with_CUpdateLock_def note_call_def push_update_def strieq_7 int16_def Let_def)

text \<open>
  Claim C8 at the thread that initialised the session. Thread 1 calls \<^verbatim>\<open>RomeInit\<close>
  with the thread check compiled in, which stores its id. A
  \<^verbatim>\<open>RomeFileSetAttrValueAux\<close> call from thread 1 then fails with the text "called on
  different thread"; the same call from thread 2 passes the check and sets the value.
\<close>

theorem C8_thread_check_inverted:
  "RomeInit threads_cfg sample_session 1 None fresh_state = (Some App, sample_after_init)
   \<and> m_nThreadId sample_after_init = 1
   \<and> fst (RomeFileSetAttrValueAux threads_cfg sample_env 1 (Some 1) (Some ''LAYERS'') (Some ''7'') 0 0
            ''#U_TEMPLATE'' sample_after_init) = - 1
   \<and> last_error 1 (snd (RomeFileSetAttrValueAux threads_cfg sample_env 1 (Some 1) (Some ''LAYERS'')
                          (Some ''7'') 0 0 ''#U_TEMPLATE'' sample_after_init))
       = ''RomeFileSetAttrValue: Rome API function called on different thread from RomeInit().''
   \<and> fst (RomeFileSetAttrValueAux threads_cfg sample_env 2 (Some 1) (Some ''LAYERS'') (Some ''7'') 0 0
            ''#U_TEMPLATE'' sample_after_init) = 1"
proof -
  have same: "RomeFileSetAttrValueAux threads_cfg sample_env 1 (Some 1) (Some ''LAYERS'') (Some ''7'') 0 0
            ''#U_TEMPLATE'' sample_after_init =
        (- 1, SETERROR threads_cfg 1
           ''RomeFileSetAttrValue: Rome API function called on different thread from RomeInit().''
           sample_after_init)"
    by (simp add: RomeFileSetAttrValueAux_def threads_cfg_def sample_after_init_def strempty_def
        cstr_def HasFlag_def sample_env_def RX_FAILURE_def)
  show ?thesis
    unfolding same
    using sample_RomeInit sample_set_value_other_thread
    by (simp add: last_error_SETERROR_R) (simp add: sample_after_init_def)
qed

subsection \<open>The dependency walk\<close>

lemma map_nth_upt_take: "n \<le> length xs \<Longrightarrow> map (\<lambda>i. xs ! i) [0..<n] = take n xs"
  by (simp add: list_eq_iff_nth_eq)

lemma GetDependencies_completed:
  assumes "files_Core D fs s = App" and "\<not> HasFlag DLLSTATE_CLOSED s" and "FileSys_IsValid D fs s"
    and "drain E s = Returns () s1"
    and "deps_walk fuel D fs [name] [] s1 = Some (Returns csaDeps s2)"
  shows "RomeFilesGetDependencies cfg E D fuel tid (Some fs) (Some name) depsArray depsSize s =
           (if csaDeps = [] then
              Some (GetDependencies_handler cfg tid (Some name) depsArray (- 1) s2)
            else Some ((True, take (length csaDeps - 1) csaDeps, int (length csaDeps) - 1), s2))"
proof (cases "csaDeps = []")
  case True
  with assms show ?thesis
    by (simp add: RomeFilesGetDependencies_def drain_def cstr_def)
next
  case False
  then have n: "nat (int (length csaDeps) - 1) = length csaDeps - 1"
    and p: "\<not> int (length csaDeps) - 1 < 0"
    by (simp_all add: Suc_leI)
  have "map (\<lambda>i. csaDeps ! i) [0..<length csaDeps - 1] = take (length csaDeps - 1) csaDeps"
    by (rule map_nth_upt_take) simp
  with assms False n p show ?thesis
    by (simp add: RomeFilesGetDependencies_def drain_def cstr_def Let_def)
qed

text \<open>
  Claim C9. When the call passes its checks, the drain returns and the walk ends without
  an exception having collected the file names \<open>csaDeps\<close>, of which there is at least
  one (so that the array can be allocated), \<^verbatim>\<open>RomeFilesGetDependencies\<close> returns true,
  sets \<open>depsSize\<close> to the number of collected names minus one, and returns an array of
  exactly \<open>depsSize\<close> entries: the collected names without the last.
\<close>

theorem C9_dependency_walk_result:
  assumes "files_Core D fs s = App" and "\<not> HasFlag DLLSTATE_CLOSED s" and "FileSys_IsValid D fs s"
    and "drain E s = Returns () s1"
    and "deps_walk fuel D fs [name] [] s1 = Some (Returns csaDeps s2)"
    and "csaDeps \<noteq> []"
  shows "RomeFilesGetDependencies cfg E D fuel tid (Some fs) (Some name) depsArray depsSize s =
           Some ((True, take (length csaDeps - 1) csaDeps, int (length csaDeps) - 1), s2)
       \<and> int (length (take (length csaDeps - 1) csaDeps)) = int (length csaDeps) - 1"
  using GetDependencies_completed [OF assms(1-5)] assms(6)
  by (simp add: Suc_leI of_nat_diff)

lemma sample_drain_entry:
  "drain sample_env (sample_state n) = Returns () (state_of (drain sample_env (sample_state n)))"
  by (simp add: drain_def invoke_def FinishUpdates_def sample_env_def state_of_def)

lemma sample_open:
  "RomeFilesOpen sample_deps fs ''A'' s = (Some 10, s)"
  "RomeFilesOpen sample_deps fs ''B'' s = (Some 20, s)"
  "RomeFilesOpen sample_deps fs ''C'' s = (Some 30, s)"
  "RomeFileClose sample_deps f s = s"
  by (simp_all add: sample_deps_def)

lemma upt_2: "[0..<2] = [0, Suc 0]"
  by (simp add: upt_conv_Cons)

lemma sample_visit:
  "visit_file sample_deps s 10 ([], []) = ([''C'', ''B''], [''B'', ''C''])"
  "visit_file sample_deps s 30 ([''B''], [''B'', ''C'']) = ([''B''], [''B'', ''C''])"
  "visit_file sample_deps s 20 ([], [''B'', ''C'']) = ([''A''], [''B'', ''C'', ''A''])"
  "visit_file sample_deps s 10 ([], [''B'', ''C'', ''A'']) = ([], [''B'', ''C'', ''A''])"
  by (simp_all add: visit_file_def visit_attr_def visit_ptr_def sample_deps_def upt_2 Let_def)

lemma sample_walk:
  "deps_walk 5 sample_deps fs [''A''] [] s = Some (Returns [''B'', ''C'', ''A''] s)"
proof -
  have five: "(5::nat) = Suc (Suc (Suc (Suc (Suc 0))))" by simp
  show ?thesis
    unfolding five by (simp add: sample_open sample_visit)
qed

theorem C9_dependency_walk_result_witness:
  "fst (the (RomeFilesGetDependencies sample_cfg sample_env sample_deps 5 2 (Some 0) (Some ''A'') [] 0
              (sample_state 1))) = (True, [''B'', ''C''], 2)"
proof -
  have v: "files_Core sample_deps 0 (sample_state 1) = App"
    "\<not> HasFlag DLLSTATE_CLOSED (sample_state 1)"
    "FileSys_IsValid sample_deps 0 (sample_state 1)"
    by (simp_all add: sample_deps_def HasFlag_def sample_state_def)
  have ne: "[''B'', ''C'', ''A''] \<noteq> []" by simp
  show ?thesis
    using C9_dependency_walk_result [OF v sample_drain_entry sample_walk ne]
    by simp
qed

end
